theory Spec2Isabelle
  imports Main
begin

section \<open>Domain entities (src/types)\<close>

text \<open>
  Identifiers are the UUID strings of the tables; a \<open>Date\<close> is a number of seconds.
  The repositories map a snake-case row to the camel-case entity field by field, so one
  record stands for both the row and the entity.
\<close>

record User =
  user_id :: string
  user_username :: string
  user_email :: string
  user_password :: string
  user_isActive :: bool
  user_createdAt :: nat
  user_updatedAt :: nat

record Role =
  role_id :: string
  role_name :: string
  role_description :: "string option"
  role_isActive :: bool
  role_createdAt :: nat
  role_updatedAt :: nat

text \<open>A permission has no active flag: neither the interface nor the table has one.\<close>

record Permission =
  perm_id :: string
  perm_name :: string
  perm_resource :: string
  perm_action :: string
  perm_description :: "string option"
  perm_createdAt :: nat
  perm_updatedAt :: nat

record UserRole =
  ur_id :: string
  ur_userId :: string
  ur_roleId :: string
  ur_assignedAt :: nat
  ur_assignedBy :: string

record RolePermission =
  rp_id :: string
  rp_roleId :: string
  rp_permissionId :: string
  rp_assignedAt :: nat
  rp_assignedBy :: string

record JWTPayload =
  jwt_userId :: string
  jwt_username :: string
  jwt_email :: string
  jwt_roles :: "string list"
  jwt_permissions :: "string list"
  jwt_iat :: "nat option"
  jwt_exp :: "nat option"

record PermissionCheck =
  pc_resource :: string
  pc_action :: string

section \<open>The database behind the knex handle\<close>

text \<open>
  The five tables, each a list of rows in storage order. \<open>foreign_keys\<close> says whether
  the engine enforces the foreign keys the migrations declare.
\<close>

record database =
  tbl_users :: "User list"
  tbl_roles :: "Role list"
  tbl_permissions :: "Permission list"
  tbl_user_roles :: "UserRole list"
  tbl_role_permissions :: "RolePermission list"
  foreign_keys :: bool

section \<open>UserRoleRepository and RolePermissionRepository: reads\<close>

text \<open>
  Both repositories and the service have a \<open>hasRole\<close> or \<open>hasPermission\<close>; the class name
  is kept as a prefix where the method name alone would clash.
\<close>

text \<open>
  A join visits the junction rows in storage order and, for each, the rows of the joined
  table that match the join condition; the \<open>where\<close> clauses filter the pairs.
\<close>

definition getUserRoles :: "database \<Rightarrow> string \<Rightarrow> Role list" where
  "getUserRoles db userId =
     [r. ur \<leftarrow> tbl_user_roles db, r \<leftarrow> tbl_roles db,
         ur_roleId ur = role_id r, ur_userId ur = userId, role_isActive r = True]"

definition UserRoleRepository_hasRole :: "database \<Rightarrow> string \<Rightarrow> string \<Rightarrow> bool" where
  "UserRoleRepository_hasRole db userId roleName =
     ([r. ur \<leftarrow> tbl_user_roles db, r \<leftarrow> tbl_roles db,
          ur_roleId ur = role_id r, ur_userId ur = userId, role_name r = roleName,
          role_isActive r = True] \<noteq> [])"

definition getRolePermissions :: "database \<Rightarrow> string \<Rightarrow> Permission list" where
  "getRolePermissions db roleId =
     [p. rp \<leftarrow> tbl_role_permissions db, p \<leftarrow> tbl_permissions db,
         rp_permissionId rp = perm_id p, rp_roleId rp = roleId]"

definition RolePermissionRepository_hasPermission :: "database \<Rightarrow> string \<Rightarrow> string \<Rightarrow> bool" where
  "RolePermissionRepository_hasPermission db roleId permissionName =
     ([p. rp \<leftarrow> tbl_role_permissions db, p \<leftarrow> tbl_permissions db,
          rp_permissionId rp = perm_id p, rp_roleId rp = roleId,
          perm_name p = permissionName] \<noteq> [])"

section \<open>RBACService.getUserPermissions\<close>

text \<open>
  \<open>Array.prototype.findIndex\<close>: the index of the first element that satisfies the
  predicate, \<open>-1\<close> when there is none.
\<close>

fun findIndex :: "('a \<Rightarrow> bool) \<Rightarrow> 'a list \<Rightarrow> int" where
  "findIndex P [] = - 1"
| "findIndex P (x # xs) =
     (if P x then 0 else (let k = findIndex P xs in if k < 0 then - 1 else k + 1))"

text \<open>
  \<open>Array.prototype.filter\<close> with the three-argument callback
  \<open>(element, index, array)\<close>.
\<close>

definition filter_indexed :: "('a \<Rightarrow> nat \<Rightarrow> 'a list \<Rightarrow> bool) \<Rightarrow> 'a list \<Rightarrow> 'a list" where
  "filter_indexed f self =
     map fst (filter (\<lambda>(x, i). f x i self) (zip self [0..<length self]))"

definition getUserPermissions :: "database \<Rightarrow> string \<Rightarrow> Permission list" where
  "getUserPermissions db userId =
     (let userRoles = getUserRoles db userId;
          allPermissions =
            foldl (\<lambda>acc role. acc @ getRolePermissions db (role_id role)) [] userRoles;
          uniquePermissions =
            filter_indexed
              (\<lambda>permission index self.
                 int index = findIndex (\<lambda>p. perm_id p = perm_id permission) self)
              allPermissions
      in uniquePermissions)"

text \<open>
  The specification's reading of the merge: keep an element exactly when no earlier
  element has its key (first-seen order, duplicates by key removed).
\<close>

fun dedup_first_seen :: "('a \<Rightarrow> 'k) \<Rightarrow> 'k list \<Rightarrow> 'a list \<Rightarrow> 'a list" where
  "dedup_first_seen key seen [] = []"
| "dedup_first_seen key seen (x # xs) =
     (if key x \<in> set seen then dedup_first_seen key seen xs
      else x # dedup_first_seen key (key x # seen) xs)"


definition RBACService_hasPermission :: "database \<Rightarrow> string \<Rightarrow> PermissionCheck \<Rightarrow> bool" where
  "RBACService_hasPermission db userId permissionCheck =
     list_ex (\<lambda>permission. perm_resource permission = pc_resource permissionCheck \<and>
                            perm_action permission = pc_action permissionCheck)
             (getUserPermissions db userId)"

definition RBACService_hasRole :: "database \<Rightarrow> string \<Rightarrow> string \<Rightarrow> bool" where
  "RBACService_hasRole db userId roleName = UserRoleRepository_hasRole db userId roleName"

section \<open>Assigning a permission to a role\<close>

text \<open>
  What a knex call can throw: a constraint violation of an insert, or the connection
  failing. The constraints of \<open>role_permissions\<close> are those of migration 005: the primary
  key, \<open>unique(role_id, permission_id)\<close>, and the three foreign keys. The row's id (the
  table's random default) and \<open>new Date()\<close> are inputs of the model.
\<close>

datatype db_error = UniqueViolation | ForeignKeyViolation | ConnectionError

definition insert_role_permission :: "database \<Rightarrow> RolePermission \<Rightarrow> db_error + database" where
  "insert_role_permission db row =
     (if list_ex (\<lambda>r. rp_id r = rp_id row) (tbl_role_permissions db) then Inl UniqueViolation
      else if list_ex (\<lambda>r. rp_roleId r = rp_roleId row \<and> rp_permissionId r = rp_permissionId row)
                (tbl_role_permissions db) then Inl UniqueViolation
      else if foreign_keys db \<and>
              \<not> (list_ex (\<lambda>r. role_id r = rp_roleId row) (tbl_roles db) \<and>
                 list_ex (\<lambda>p. perm_id p = rp_permissionId row) (tbl_permissions db) \<and>
                 list_ex (\<lambda>u. user_id u = rp_assignedBy row) (tbl_users db))
           then Inl ForeignKeyViolation
      else Inr (db\<lparr>tbl_role_permissions := tbl_role_permissions db @ [row]\<rparr>))"

text \<open>
  A method's outcome is \<open>Inr\<close> of the value it returns or \<open>Inl\<close> of the error it throws,
  paired with the database it leaves. \<open>RolePermissionRepository.assignPermission\<close> catches
  whatever the insert throws and returns \<open>false\<close>.
\<close>

definition assignPermission ::
  "database \<Rightarrow> string \<Rightarrow> nat \<Rightarrow> string \<Rightarrow> string \<Rightarrow> string \<Rightarrow> (db_error + bool) \<times> database" where
  "assignPermission db newId now roleId permissionId assignedBy =
     (case insert_role_permission db
             \<lparr>rp_id = newId, rp_roleId = roleId, rp_permissionId = permissionId,
              rp_assignedAt = now, rp_assignedBy = assignedBy\<rparr> of
        Inr db' \<Rightarrow> (Inr True, db')
      | Inl error \<Rightarrow> (Inr False, db))"

text \<open>
  \<open>RBACService.assignPermissionToRole\<close> awaits the repository call, drops its value and
  returns \<open>true\<close>; its \<open>catch\<close> returns \<open>false\<close>.
\<close>

definition assignPermissionToRole ::
  "database \<Rightarrow> string \<Rightarrow> nat \<Rightarrow> string \<Rightarrow> string \<Rightarrow> string \<Rightarrow> (db_error + bool) \<times> database" where
  "assignPermissionToRole db newId now roleId permissionId assignedBy =
     (case assignPermission db newId now roleId permissionId assignedBy of
        (Inr _, db') \<Rightarrow> (Inr True, db')
      | (Inl error, db') \<Rightarrow> (Inr False, db'))"

text \<open>The edges of the role-permission graph, as a set of (role, permission) pairs.\<close>

definition role_permission_edges :: "database \<Rightarrow> (string \<times> string) set" where
  "role_permission_edges db = (\<lambda>r. (rp_roleId r, rp_permissionId r)) ` set (tbl_role_permissions db)"

section \<open>Tokens\<close>

record RBACConfig =
  jwt_secret :: string
  jwt_expiresIn :: nat

text \<open>
  \<open>jwt_expiresIn\<close> is the number of seconds the configured time span (\<open>'24h'\<close>) denotes.
  The two functions of the jsonwebtoken library are parameters of the service's wrappers:
  \<open>sign payload secret expiresIn\<close> returns the token, \<open>verify token secret\<close> returns the
  payload or throws.
\<close>

datatype jwt_error = InvalidSignature | Malformed | TokenExpired

definition generateToken ::
  "(JWTPayload \<Rightarrow> string \<Rightarrow> nat \<Rightarrow> string) \<Rightarrow> RBACConfig \<Rightarrow> JWTPayload \<Rightarrow> string" where
  "generateToken sign config payload = sign payload (jwt_secret config) (jwt_expiresIn config)"

definition verifyToken ::
  "(string \<Rightarrow> string \<Rightarrow> jwt_error + JWTPayload) \<Rightarrow> RBACConfig \<Rightarrow> string \<Rightarrow> JWTPayload option" where
  "verifyToken verify config token =
     (case verify token (jwt_secret config) of
        Inr payload \<Rightarrow> Some payload
      | Inl error \<Rightarrow> None)"


subsection \<open>The token library\<close>

text \<open>
  Modelled from the spec: \<open>jwt.sign\<close> and \<open>jwt.verify\<close> of the jsonwebtoken package, which
  is not part of the sources. The specification gives the token as an opaque signed string
  that embeds the claims plus issued-at and a fixed-TTL expires-at, and has verification
  answer invalid on a signature mismatch, a malformed structure or expiry. The model
  writes the claims and the two timestamps as length-prefixed fields (the body), and the
  token as the length-prefixed body followed by the tag \<open>mac secret body\<close>. The keyed
  hash \<open>mac\<close> and the clock \<open>now\<close> (seconds) are parameters. A token is expired from
  the second \<open>exp\<close> on.
\<close>

fun dec :: "nat \<Rightarrow> string" where
  "dec n = (if n < 10 then [char_of (48 + n)] else dec (n div 10) @ [char_of (48 + n mod 10)])"

declare dec.simps [simp del]

definition is_digit :: "char \<Rightarrow> bool" where
  "is_digit c = (48 \<le> (of_char c :: nat) \<and> (of_char c :: nat) < 58)"

definition parse_nat :: "string \<Rightarrow> nat option" where
  "parse_nat s =
     (if s = [] \<or> \<not> list_all is_digit s then None
      else Some (foldl (\<lambda>acc c. 10 * acc + (of_char c - 48)) 0 s))"

definition put_nat :: "nat \<Rightarrow> string" where
  "put_nat n = dec n @ '':''"

definition take_nat :: "string \<Rightarrow> (nat \<times> string) option" where
  "take_nat s =
     (case dropWhile (\<lambda>c. c \<noteq> CHR '':'') s of
        [] \<Rightarrow> None
      | _ # rest \<Rightarrow>
          (case parse_nat (takeWhile (\<lambda>c. c \<noteq> CHR '':'') s) of
             None \<Rightarrow> None
           | Some n \<Rightarrow> Some (n, rest)))"

definition put_str :: "string \<Rightarrow> string" where
  "put_str s = put_nat (length s) @ s"

definition take_str :: "string \<Rightarrow> (string \<times> string) option" where
  "take_str s =
     (case take_nat s of
        None \<Rightarrow> None
      | Some (n, rest) \<Rightarrow> if length rest < n then None else Some (take n rest, drop n rest))"

definition put_list :: "string list \<Rightarrow> string" where
  "put_list xs = put_nat (length xs) @ concat (map put_str xs)"

fun take_strs :: "nat \<Rightarrow> string \<Rightarrow> (string list \<times> string) option" where
  "take_strs 0 s = Some ([], s)"
| "take_strs (Suc k) s =
     (case take_str s of
        None \<Rightarrow> None
      | Some (x, rest) \<Rightarrow>
          (case take_strs k rest of
             None \<Rightarrow> None
           | Some (xs, rest') \<Rightarrow> Some (x # xs, rest')))"

definition take_list :: "string \<Rightarrow> (string list \<times> string) option" where
  "take_list s = (case take_nat s of None \<Rightarrow> None | Some (n, rest) \<Rightarrow> take_strs n rest)"

text \<open>
  Modelled from the spec: the wire representation, an encoding of
  \<open>{userId, username, email, roles, permissions, issuedAt, expiresAt}\<close>.
\<close>

definition encode_payload :: "JWTPayload \<Rightarrow> nat \<Rightarrow> nat \<Rightarrow> string" where
  "encode_payload p iat exp =
     put_str (jwt_userId p) @ put_str (jwt_username p) @ put_str (jwt_email p) @
     put_list (jwt_roles p) @ put_list (jwt_permissions p) @ put_nat iat @ put_nat exp"

definition decode_payload :: "string \<Rightarrow> JWTPayload option" where
  "decode_payload s0 =
     (case take_str s0 of None \<Rightarrow> None | Some (userId, s1) \<Rightarrow>
      case take_str s1 of None \<Rightarrow> None | Some (username, s2) \<Rightarrow>
      case take_str s2 of None \<Rightarrow> None | Some (email, s3) \<Rightarrow>
      case take_list s3 of None \<Rightarrow> None | Some (roles, s4) \<Rightarrow>
      case take_list s4 of None \<Rightarrow> None | Some (permissions, s5) \<Rightarrow>
      case take_nat s5 of None \<Rightarrow> None | Some (iat, s6) \<Rightarrow>
      case take_nat s6 of None \<Rightarrow> None | Some (exp, s7) \<Rightarrow>
        if s7 \<noteq> [] then None
        else Some \<lparr>jwt_userId = userId, jwt_username = username, jwt_email = email,
                   jwt_roles = roles, jwt_permissions = permissions,
                   jwt_iat = Some iat, jwt_exp = Some exp\<rparr>)"

text \<open>
  Modelled from the spec: \<open>jwt.sign\<close>, absent from the sources. The token embeds the
  claims plus issued-at (\<open>now\<close>) and expires-at (\<open>now + expiresIn\<close>), and is signed
  with the secret.
\<close>

definition jwt_sign :: "(string \<Rightarrow> string \<Rightarrow> string) \<Rightarrow> nat \<Rightarrow> JWTPayload \<Rightarrow> string \<Rightarrow> nat \<Rightarrow> string" where
  "jwt_sign mac now payload secret expiresIn =
     (let body = encode_payload payload now (now + expiresIn)
      in put_str body @ mac secret body)"

text \<open>
  Modelled from the spec: \<open>jwt.verify\<close>, absent from the sources. It throws on a
  malformed structure, on a signature mismatch and on expiry, and returns the embedded
  claims otherwise.
\<close>

definition jwt_verify ::
  "(string \<Rightarrow> string \<Rightarrow> string) \<Rightarrow> nat \<Rightarrow> string \<Rightarrow> string \<Rightarrow> jwt_error + JWTPayload" where
  "jwt_verify mac now token secret =
     (case take_str token of
        None \<Rightarrow> Inl Malformed
      | Some (body, tag) \<Rightarrow>
          if tag \<noteq> mac secret body then Inl InvalidSignature
          else (case decode_payload body of
                  None \<Rightarrow> Inl Malformed
                | Some payload \<Rightarrow>
                    (case jwt_exp payload of
                       None \<Rightarrow> Inr payload
                     | Some exp \<Rightarrow> if exp \<le> now then Inl TokenExpired else Inr payload)))"


section \<open>RBACService.authenticateUser\<close>

text \<open>\<open>Omit<User, 'password'>\<close> and \<open>AuthResult\<close>.\<close>

record PublicUser =
  pub_id :: string
  pub_username :: string
  pub_email :: string
  pub_isActive :: bool
  pub_createdAt :: nat
  pub_updatedAt :: nat

record AuthResult =
  auth_user :: PublicUser
  auth_token :: string
  auth_roles :: "Role list"
  auth_permissions :: "Permission list"

text \<open>\<open>UserRepository.findByUsername\<close>: the first row with that username.\<close>

definition findByUsername :: "database \<Rightarrow> string \<Rightarrow> User option" where
  "findByUsername db username = find (\<lambda>u. user_username u = username) (tbl_users db)"

text \<open>
  \<open>compare password hash\<close> stands for \<open>bcrypt.compare\<close>, \<open>sign\<close> for \<open>jwt.sign\<close>.
  The result \<open>None\<close> is the \<open>null\<close> of the source.
\<close>

definition authenticateUser ::
  "(string \<Rightarrow> string \<Rightarrow> bool) \<Rightarrow> (JWTPayload \<Rightarrow> string \<Rightarrow> nat \<Rightarrow> string) \<Rightarrow> RBACConfig \<Rightarrow>
   database \<Rightarrow> string \<Rightarrow> string \<Rightarrow> AuthResult option" where
  "authenticateUser compare sign config db username password =
     (case findByUsername db username of
        None \<Rightarrow> None
      | Some user \<Rightarrow>
          if \<not> user_isActive user then None
          else
            (let isValidPassword = compare password (user_password user)
             in if \<not> isValidPassword then None
                else
                  (let roles = getUserRoles db (user_id user);
                       permissions = getUserPermissions db (user_id user);
                       token = generateToken sign config
                         \<lparr>jwt_userId = user_id user, jwt_username = user_username user,
                          jwt_email = user_email user, jwt_roles = map role_name roles,
                          jwt_permissions = map perm_name permissions,
                          jwt_iat = None, jwt_exp = None\<rparr>
                   in Some \<lparr>auth_user =
                              \<lparr>pub_id = user_id user, pub_username = user_username user,
                               pub_email = user_email user, pub_isActive = user_isActive user,
                               pub_createdAt = user_createdAt user,
                               pub_updatedAt = user_updatedAt user\<rparr>,
                            auth_token = token, auth_roles = roles,
                            auth_permissions = permissions\<rparr>)))"

section \<open>The authorization gates\<close>

text \<open>
  A gate is an Express middleware: it calls \<open>next()\<close> or answers with an HTTP status
  (401 unauthenticated, 403 forbidden, 500 from the \<open>catch\<close>). The request enters through
  \<open>req.user\<close>, absent when no identity was attached. The JSON body of the answer (a
  message) is left out.
\<close>

datatype gate_result = Next | Status nat

subsection \<open>RBACMiddleware: decisions on the claims of the token\<close>

definition RBACMiddleware_requireRole :: "string \<Rightarrow> JWTPayload option \<Rightarrow> gate_result" where
  "RBACMiddleware_requireRole roleName user =
     (case user of
        None \<Rightarrow> Status 401
      | Some u \<Rightarrow>
          (let hasRole = (roleName \<in> set (jwt_roles u))
           in if \<not> hasRole then Status 403 else Next))"

definition RBACMiddleware_requirePermission :: "PermissionCheck \<Rightarrow> JWTPayload option \<Rightarrow> gate_result" where
  "RBACMiddleware_requirePermission permissionCheck user =
     (case user of
        None \<Rightarrow> Status 401
      | Some u \<Rightarrow>
          (let hasPermission =
                 list_ex (\<lambda>permission.
                     permission = pc_resource permissionCheck @ '':'' @ pc_action permissionCheck \<or>
                     permission = pc_resource permissionCheck @ ''.'' @ pc_action permissionCheck)
                   (jwt_permissions u)
           in if \<not> hasPermission then Status 403 else Next))"

definition RBACMiddleware_requireAnyRole :: "string list \<Rightarrow> JWTPayload option \<Rightarrow> gate_result" where
  "RBACMiddleware_requireAnyRole roleNames user =
     (case user of
        None \<Rightarrow> Status 401
      | Some u \<Rightarrow>
          (let hasAnyRole = list_ex (\<lambda>roleName. roleName \<in> set (jwt_roles u)) roleNames
           in if \<not> hasAnyRole then Status 403 else Next))"

definition RBACMiddleware_requireAnyPermission ::
  "PermissionCheck list \<Rightarrow> JWTPayload option \<Rightarrow> gate_result" where
  "RBACMiddleware_requireAnyPermission permissionChecks user =
     (case user of
        None \<Rightarrow> Status 401
      | Some u \<Rightarrow>
          (let hasAnyPermission =
                 list_ex (\<lambda>permissionCheck.
                     list_ex (\<lambda>permission.
                         permission = pc_resource permissionCheck @ '':'' @ pc_action permissionCheck \<or>
                         permission = pc_resource permissionCheck @ ''.'' @ pc_action permissionCheck)
                       (jwt_permissions u))
                   permissionChecks
           in if \<not> hasAnyPermission then Status 403 else Next))"

definition RBACMiddleware_requireAdminOrPermission ::
  "PermissionCheck \<Rightarrow> JWTPayload option \<Rightarrow> gate_result" where
  "RBACMiddleware_requireAdminOrPermission permissionCheck user =
     (case user of
        None \<Rightarrow> Status 401
      | Some u \<Rightarrow>
          (let isAdmin = (''admin'' \<in> set (jwt_roles u));
               hasPermission =
                 list_ex (\<lambda>permission.
                     permission = pc_resource permissionCheck @ '':'' @ pc_action permissionCheck \<or>
                     permission = pc_resource permissionCheck @ ''.'' @ pc_action permissionCheck)
                   (jwt_permissions u)
           in if \<not> isAdmin \<and> \<not> hasPermission then Status 403 else Next))"

subsection \<open>AuthMiddleware: decisions on live queries of the service\<close>

text \<open>
  The two service methods the gates await, as the test suite mocks them: a call resolves
  to a boolean (\<open>Inr\<close>) or rejects (\<open>Inl\<close>). \<open>rbacService db\<close> is the service over a
  database that answers.
\<close>

record RBACService =
  svc_hasRole :: "string \<Rightarrow> string \<Rightarrow> db_error + bool"
  svc_hasPermission :: "string \<Rightarrow> PermissionCheck \<Rightarrow> db_error + bool"

definition rbacService :: "database \<Rightarrow> RBACService" where
  "rbacService db =
     \<lparr>svc_hasRole = (\<lambda>userId roleName. Inr (RBACService_hasRole db userId roleName)),
      svc_hasPermission =
        (\<lambda>userId permissionCheck. Inr (RBACService_hasPermission db userId permissionCheck))\<rparr>"

text \<open>\<open>Promise.all\<close>: the list of the values, or a rejection when one of them rejects.\<close>

fun promise_all :: "('e + 'a) list \<Rightarrow> 'e + 'a list" where
  "promise_all [] = Inr []"
| "promise_all (r # rs) =
     (case r of
        Inl e \<Rightarrow> Inl e
      | Inr v \<Rightarrow> (case promise_all rs of Inl e \<Rightarrow> Inl e | Inr vs \<Rightarrow> Inr (v # vs)))"

definition AuthMiddleware_requireRole ::
  "RBACService \<Rightarrow> string \<Rightarrow> JWTPayload option \<Rightarrow> gate_result" where
  "AuthMiddleware_requireRole svc roleName user =
     (case user of
        None \<Rightarrow> Status 401
      | Some u \<Rightarrow>
          (case svc_hasRole svc (jwt_userId u) roleName of
             Inl error \<Rightarrow> Status 500
           | Inr hasRole \<Rightarrow> if \<not> hasRole then Status 403 else Next))"

definition AuthMiddleware_requirePermission ::
  "RBACService \<Rightarrow> PermissionCheck \<Rightarrow> JWTPayload option \<Rightarrow> gate_result" where
  "AuthMiddleware_requirePermission svc permissionCheck user =
     (case user of
        None \<Rightarrow> Status 401
      | Some u \<Rightarrow>
          (case svc_hasPermission svc (jwt_userId u) permissionCheck of
             Inl error \<Rightarrow> Status 500
           | Inr hasPermission \<Rightarrow> if \<not> hasPermission then Status 403 else Next))"

definition AuthMiddleware_requireAnyRole ::
  "RBACService \<Rightarrow> string list \<Rightarrow> JWTPayload option \<Rightarrow> gate_result" where
  "AuthMiddleware_requireAnyRole svc roleNames user =
     (case user of
        None \<Rightarrow> Status 401
      | Some u \<Rightarrow>
          (case promise_all (map (\<lambda>roleName. svc_hasRole svc (jwt_userId u) roleName) roleNames) of
             Inl error \<Rightarrow> Status 500
           | Inr hasAnyRole \<Rightarrow>
               if \<not> list_ex (\<lambda>hasRole. hasRole) hasAnyRole then Status 403 else Next))"

definition AuthMiddleware_requireAnyPermission ::
  "RBACService \<Rightarrow> PermissionCheck list \<Rightarrow> JWTPayload option \<Rightarrow> gate_result" where
  "AuthMiddleware_requireAnyPermission svc permissionChecks user =
     (case user of
        None \<Rightarrow> Status 401
      | Some u \<Rightarrow>
          (case promise_all
                  (map (\<lambda>permissionCheck. svc_hasPermission svc (jwt_userId u) permissionCheck)
                     permissionChecks) of
             Inl error \<Rightarrow> Status 500
           | Inr hasAnyPermission \<Rightarrow>
               if \<not> list_ex (\<lambda>hasPermission. hasPermission) hasAnyPermission then Status 403
               else Next))"


section \<open>Example data\<close>

text \<open>
  One user holding three roles, the third inactive; \<open>admin\<close> grants two permissions,
  \<open>editor\<close> one of them again, and only the inactive \<open>legacy\<close> grants \<open>sensitive:read\<close>.
\<close>

definition ex_user :: "string \<Rightarrow> string \<Rightarrow> string \<Rightarrow> bool \<Rightarrow> User" where
  "ex_user i n h a =
     \<lparr>user_id = i, user_username = n, user_email = n @ ''@example.com'', user_password = h,
      user_isActive = a, user_createdAt = 0, user_updatedAt = 0\<rparr>"

definition ex_role :: "string \<Rightarrow> string \<Rightarrow> bool \<Rightarrow> Role" where
  "ex_role i n a =
     \<lparr>role_id = i, role_name = n, role_description = None, role_isActive = a,
      role_createdAt = 0, role_updatedAt = 0\<rparr>"

definition ex_perm :: "string \<Rightarrow> string \<Rightarrow> string \<Rightarrow> Permission" where
  "ex_perm i r a =
     \<lparr>perm_id = i, perm_name = r @ '':'' @ a, perm_resource = r, perm_action = a,
      perm_description = None, perm_createdAt = 0, perm_updatedAt = 0\<rparr>"

definition ex_ur :: "string \<Rightarrow> string \<Rightarrow> string \<Rightarrow> UserRole" where
  "ex_ur i u r =
     \<lparr>ur_id = i, ur_userId = u, ur_roleId = r, ur_assignedAt = 0, ur_assignedBy = ''u1''\<rparr>"

definition ex_rp :: "string \<Rightarrow> string \<Rightarrow> string \<Rightarrow> RolePermission" where
  "ex_rp i r p =
     \<lparr>rp_id = i, rp_roleId = r, rp_permissionId = p, rp_assignedAt = 0, rp_assignedBy = ''u1''\<rparr>"

definition ex_db :: database where
  "ex_db =
     \<lparr>tbl_users = [ex_user ''u1'' ''alice'' ''hash(wonderland)'' True,
                   ex_user ''u2'' ''bob'' ''hash(builder)'' False],
      tbl_roles = [ex_role ''r1'' ''admin'' True, ex_role ''r2'' ''editor'' True,
                   ex_role ''r3'' ''legacy'' False],
      tbl_permissions = [ex_perm ''p1'' ''content'' ''read'', ex_perm ''p2'' ''content'' ''delete'',
                         ex_perm ''p3'' ''sensitive'' ''read''],
      tbl_user_roles = [ex_ur ''a1'' ''u1'' ''r1'', ex_ur ''a2'' ''u1'' ''r2'',
                        ex_ur ''a3'' ''u1'' ''r3''],
      tbl_role_permissions = [ex_rp ''b1'' ''r1'' ''p1'', ex_rp ''b2'' ''r1'' ''p2'',
                              ex_rp ''b3'' ''r2'' ''p2'', ex_rp ''b4'' ''r3'' ''p3''],
      foreign_keys = True\<rparr>"

text \<open>Stand-ins for the password comparison and the keyed hash, and a configuration.\<close>

definition ex_compare :: "string \<Rightarrow> string \<Rightarrow> bool" where
  "ex_compare password hash = (hash = ''hash('' @ password @ '')'')"

definition ex_mac :: "string \<Rightarrow> string \<Rightarrow> string" where
  "ex_mac secret body = rev secret @ ''#'' @ dec (length body)"

definition ex_config :: RBACConfig where
  "ex_config = \<lparr>jwt_secret = ''s3cret'', jwt_expiresIn = 3600\<rparr>"

definition ex_claims :: "string list \<Rightarrow> string list \<Rightarrow> JWTPayload" where
  "ex_claims rs ps =
     \<lparr>jwt_userId = ''u1'', jwt_username = ''alice'', jwt_email = ''alice@example.com'',
      jwt_roles = rs, jwt_permissions = ps, jwt_iat = None, jwt_exp = None\<rparr>"

text \<open>A service whose queries reject, as when the database is unreachable.\<close>

definition ex_rejecting_service :: RBACService where
  "ex_rejecting_service =
     \<lparr>svc_hasRole = (\<lambda>userId roleName. Inl ConnectionError),
      svc_hasPermission = (\<lambda>userId permissionCheck. Inl ConnectionError)\<rparr>"

definition ex_check :: PermissionCheck where
  "ex_check = \<lparr>pc_resource = ''sensitive'', pc_action = ''read''\<rparr>"

section \<open>The merge of getUserPermissions\<close>

lemma findIndex_ge: "findIndex P xs \<ge> - 1"
  by (induction xs) (auto simp: Let_def)

lemma findIndex_eq_iff:
  "findIndex P xs = int i \<longleftrightarrow> i < length xs \<and> P (xs ! i) \<and> (\<forall>j<i. \<not> P (xs ! j))"
proof (induction xs arbitrary: i)
  case Nil
  then show ?case by simp
next
  case (Cons x xs)
  show ?case
  proof (cases "P x")
    case True
    then show ?thesis by (cases i) auto
  next
    case False
    show ?thesis
    proof (cases i)
      case 0
      with False show ?thesis using findIndex_ge[of P xs] by (auto simp: Let_def)
    next
      case (Suc k)
      have "findIndex P (x # xs) = int (Suc k) \<longleftrightarrow> findIndex P xs = int k"
        using False by (auto simp: Let_def)
      also have "\<dots> \<longleftrightarrow> k < length xs \<and> P (xs ! k) \<and> (\<forall>j<k. \<not> P (xs ! j))"
        by (rule Cons.IH)
      also have "\<dots> \<longleftrightarrow> Suc k < length (x # xs) \<and> P ((x # xs) ! Suc k) \<and>
                    (\<forall>j<Suc k. \<not> P ((x # xs) ! j))"
        using False by (auto simp: less_Suc_eq_0_disj)
      finally show ?thesis using Suc by simp
    qed
  qed
qed

lemma upt_shift_Cons: "[n..<n + Suc m] = n # [Suc n..<Suc n + m]"
  by (simp add: upt_rec)

text \<open>
  With \<open>pre\<close> the elements already passed and \<open>seen\<close> their keys, keeping the elements
  of \<open>xs\<close> that no earlier position matches is \<open>dedup_first_seen\<close>.
\<close>

lemma keep_first_general:
  "set seen = key ` set pre \<Longrightarrow>
   map fst (filter (\<lambda>(x, i). \<forall>j<i. key ((pre @ xs) ! j) \<noteq> key x)
              (zip xs [length pre..<length pre + length xs]))
   = dedup_first_seen key seen xs"
proof (induction xs arbitrary: pre seen)
  case Nil
  then show ?case by simp
next
  case (Cons a xs)
  have head: "(\<forall>j<length pre. key ((pre @ a # xs) ! j) \<noteq> key a) \<longleftrightarrow> key a \<notin> set seen"
  proof -
    have "(\<forall>j<length pre. key ((pre @ a # xs) ! j) \<noteq> key a)
        \<longleftrightarrow> (\<forall>j<length pre. key (pre ! j) \<noteq> key a)"
      by (simp add: nth_append)
    also have "\<dots> \<longleftrightarrow> (\<forall>y\<in>set pre. key y \<noteq> key a)"
      by (metis in_set_conv_nth)
    also have "\<dots> \<longleftrightarrow> key a \<notin> set seen"
      unfolding Cons.prems by (metis image_iff)
    finally show ?thesis .
  qed
  have zip_eq: "zip (a # xs) [length pre..<length pre + length (a # xs)]
      = (a, length pre) # zip xs [length (pre @ [a])..<length (pre @ [a]) + length xs]"
    using upt_shift_Cons[of "length pre" "length xs"] by simp
  have app: "pre @ a # xs = (pre @ [a]) @ xs" by simp
  show ?case
  proof (cases "key a \<in> set seen")
    case True
    then have s: "set seen = key ` set (pre @ [a])" using Cons.prems by auto
    show ?thesis
      unfolding zip_eq using True head Cons.IH[OF s]
      by (simp only: app) simp
  next
    case False
    have s: "set (key a # seen) = key ` set (pre @ [a])" using Cons.prems by auto
    show ?thesis
      unfolding zip_eq using False head Cons.IH[OF s]
      by (simp only: app) simp
  qed
qed

lemma filter_indexed_findIndex:
  "filter_indexed (\<lambda>x i self. int i = findIndex (\<lambda>p. key p = key x) self) xs
   = dedup_first_seen key [] xs"
proof -
  have "filter (\<lambda>(x, i). int i = findIndex (\<lambda>p. key p = key x) xs) (zip xs [0..<length xs])
      = filter (\<lambda>(x, i). \<forall>j<i. key (xs ! j) \<noteq> key x) (zip xs [0..<length xs])"
  proof (rule filter_cong[OF refl])
    fix e assume "e \<in> set (zip xs [0..<length xs])"
    then obtain k where k: "k < length xs" "e = (xs ! k, k)"
      by (auto simp: in_set_zip)
    show "(case e of (x, i) \<Rightarrow> int i = findIndex (\<lambda>p. key p = key x) xs)
        = (case e of (x, i) \<Rightarrow> \<forall>j<i. key (xs ! j) \<noteq> key x)"
      using k findIndex_eq_iff[of "\<lambda>p. key p = key (xs ! k)" xs k] by auto
  qed
  then show ?thesis
    using keep_first_general[of "[]" key "[]" xs] by (simp add: filter_indexed_def)
qed

lemma foldl_append_concat:
  "foldl (\<lambda>acc r. acc @ f r) init rs = init @ concat (map f rs)"
  by (induction rs arbitrary: init) auto

lemma dedup_subset: "set (dedup_first_seen key seen xs) \<subseteq> set xs"
  by (induction xs arbitrary: seen) (auto split: if_splits)

lemma dedup_keys:
  "key ` set (dedup_first_seen key seen xs) = key ` set xs - set seen"
  by (induction xs arbitrary: seen) (auto split: if_splits)

lemma dedup_distinct: "distinct (map key (dedup_first_seen key seen xs))"
proof (induction xs arbitrary: seen)
  case Nil
  then show ?case by simp
next
  case (Cons a xs)
  show ?case using Cons.IH dedup_keys[of key "key a # seen" xs] by (auto simp: image_iff)
qed

lemma getUserPermissions_merge:
  "getUserPermissions db userId =
     dedup_first_seen perm_id []
       (concat (map (\<lambda>role. getRolePermissions db (role_id role)) (getUserRoles db userId)))"
  by (simp add: getUserPermissions_def Let_def foldl_append_concat filter_indexed_findIndex)

lemma getUserRoles_set:
  "set (getUserRoles db userId) =
     {r \<in> set (tbl_roles db). role_isActive r \<and>
        (\<exists>ur\<in>set (tbl_user_roles db). ur_userId ur = userId \<and> ur_roleId ur = role_id r)}"
  by (auto simp: getUserRoles_def split: if_splits)

lemma getRolePermissions_set:
  "set (getRolePermissions db roleId) =
     {p \<in> set (tbl_permissions db).
        \<exists>rp\<in>set (tbl_role_permissions db). rp_roleId rp = roleId \<and> rp_permissionId rp = perm_id p}"
  by (auto simp: getRolePermissions_def split: if_splits)

lemma UserRoleRepository_hasRole_iff:
  "UserRoleRepository_hasRole db userId roleName \<longleftrightarrow>
     (\<exists>r\<in>set (getUserRoles db userId). role_name r = roleName)"
proof -
  have "[r. ur \<leftarrow> tbl_user_roles db, r \<leftarrow> tbl_roles db,
          ur_roleId ur = role_id r, ur_userId ur = userId, role_name r = roleName,
          role_isActive r = True] = filter (\<lambda>r. role_name r = roleName) (getUserRoles db userId)"
    unfolding getUserRoles_def
    by (induction "tbl_user_roles db" arbitrary: db) (auto simp: filter_concat comp_def intro!: arg_cong[where f=concat] map_cong)
  then show ?thesis
    by (auto simp: UserRoleRepository_hasRole_def filter_empty_conv)
qed

section \<open>The claims\<close>

text \<open>
  C1. For every user, \<open>getUserPermissions\<close> is the union of \<open>getRolePermissions\<close> over the
  user's active roles (the result of \<open>getUserRoles\<close>), duplicates removed by permission id
  and first-seen order kept: it equals \<open>dedup_first_seen\<close> of the concatenation, its ids are
  distinct, its elements and ids are those of the union, every role it goes through is
  active, and a permission that only inactive roles of the user reach is absent.
\<close>

theorem getUserPermissions_dedup_union:
  "getUserPermissions db userId =
     dedup_first_seen perm_id []
       (concat (map (\<lambda>role. getRolePermissions db (role_id role)) (getUserRoles db userId)))
   \<and> distinct (map perm_id (getUserPermissions db userId))
   \<and> set (getUserPermissions db userId)
       \<subseteq> (\<Union>role\<in>set (getUserRoles db userId). set (getRolePermissions db (role_id role)))
   \<and> perm_id ` set (getUserPermissions db userId)
       = perm_id ` (\<Union>role\<in>set (getUserRoles db userId). set (getRolePermissions db (role_id role)))
   \<and> (\<forall>role\<in>set (getUserRoles db userId). role_isActive role)
   \<and> (\<forall>p. (\<forall>role\<in>set (tbl_roles db).
              (\<exists>ur\<in>set (tbl_user_roles db). ur_userId ur = userId \<and> ur_roleId ur = role_id role) \<and>
              p \<in> set (getRolePermissions db (role_id role)) \<longrightarrow> \<not> role_isActive role)
          \<longrightarrow> p \<notin> set (getUserPermissions db userId))"
proof -
  let ?all = "concat (map (\<lambda>role. getRolePermissions db (role_id role)) (getUserRoles db userId))"
  have m: "getUserPermissions db userId = dedup_first_seen perm_id [] ?all"
    by (rule getUserPermissions_merge)
  have d: "distinct (map perm_id (getUserPermissions db userId))"
    unfolding m by (rule dedup_distinct)
  have sub: "set (getUserPermissions db userId)
       \<subseteq> (\<Union>role\<in>set (getUserRoles db userId). set (getRolePermissions db (role_id role)))"
    unfolding m using dedup_subset[of perm_id "[]" ?all] by auto
  have ids: "perm_id ` set (getUserPermissions db userId)
       = perm_id ` (\<Union>role\<in>set (getUserRoles db userId). set (getRolePermissions db (role_id role)))"
    unfolding m using dedup_keys[of perm_id "[]" ?all] by simp
  have act: "\<forall>role\<in>set (getUserRoles db userId). role_isActive role"
    by (simp add: getUserRoles_set)
  have excl: "\<forall>p. (\<forall>role\<in>set (tbl_roles db).
              (\<exists>ur\<in>set (tbl_user_roles db). ur_userId ur = userId \<and> ur_roleId ur = role_id role) \<and>
              p \<in> set (getRolePermissions db (role_id role)) \<longrightarrow> \<not> role_isActive role)
          \<longrightarrow> p \<notin> set (getUserPermissions db userId)"
  proof (intro allI impI notI)
    fix p
    assume only: "\<forall>role\<in>set (tbl_roles db).
              (\<exists>ur\<in>set (tbl_user_roles db). ur_userId ur = userId \<and> ur_roleId ur = role_id role) \<and>
              p \<in> set (getRolePermissions db (role_id role)) \<longrightarrow> \<not> role_isActive role"
    assume "p \<in> set (getUserPermissions db userId)"
    with sub obtain role where r: "role \<in> set (getUserRoles db userId)"
        "p \<in> set (getRolePermissions db (role_id role))" by auto
    from r(1) have "role \<in> set (tbl_roles db)" "role_isActive role"
        "\<exists>ur\<in>set (tbl_user_roles db). ur_userId ur = userId \<and> ur_roleId ur = role_id role"
      by (simp_all add: getUserRoles_set)
    with only r(2) show False by blast
  qed
  from m d sub ids act excl show ?thesis by (intro conjI)
qed


theorem getUserPermissions_dedup_union_witness:
  "getUserRoles ex_db ''u1'' = [ex_role ''r1'' ''admin'' True, ex_role ''r2'' ''editor'' True]
   \<and> getRolePermissions ex_db ''r1'' = [ex_perm ''p1'' ''content'' ''read'', ex_perm ''p2'' ''content'' ''delete'']
   \<and> getRolePermissions ex_db ''r2'' = [ex_perm ''p2'' ''content'' ''delete'']
   \<and> getRolePermissions ex_db ''r3'' = [ex_perm ''p3'' ''sensitive'' ''read'']
   \<and> getUserPermissions ex_db ''u1'' = [ex_perm ''p1'' ''content'' ''read'', ex_perm ''p2'' ''content'' ''delete'']
   \<and> ex_perm ''p3'' ''sensitive'' ''read'' \<notin> set (getUserPermissions ex_db ''u1'')"
proof -
  have only_inactive:
    "\<forall>role\<in>set (tbl_roles ex_db).
       (\<exists>ur\<in>set (tbl_user_roles ex_db). ur_userId ur = ''u1'' \<and> ur_roleId ur = role_id role) \<and>
       ex_perm ''p3'' ''sensitive'' ''read'' \<in> set (getRolePermissions ex_db (role_id role))
       \<longrightarrow> \<not> role_isActive role"
    by code_simp
  have absent: "ex_perm ''p3'' ''sensitive'' ''read'' \<notin> set (getUserPermissions ex_db ''u1'')"
    using getUserPermissions_dedup_union[of ex_db "''u1''"] only_inactive by blast
  have roles: "getUserRoles ex_db ''u1'' = [ex_role ''r1'' ''admin'' True, ex_role ''r2'' ''editor'' True]"
    by code_simp
  have r1: "getRolePermissions ex_db ''r1'' = [ex_perm ''p1'' ''content'' ''read'', ex_perm ''p2'' ''content'' ''delete'']"
    by code_simp
  have r2: "getRolePermissions ex_db ''r2'' = [ex_perm ''p2'' ''content'' ''delete'']"
    by code_simp
  have r3: "getRolePermissions ex_db ''r3'' = [ex_perm ''p3'' ''sensitive'' ''read'']"
    by code_simp
  have "getUserPermissions ex_db ''u1'' =
      dedup_first_seen perm_id []
       (concat (map (\<lambda>role. getRolePermissions ex_db (role_id role)) (getUserRoles ex_db ''u1'')))"
    using getUserPermissions_dedup_union[of ex_db "''u1''"] by blast
  also have "\<dots> = [ex_perm ''p1'' ''content'' ''read'', ex_perm ''p2'' ''content'' ''delete'']"
    by code_simp
  finally show ?thesis using absent roles r1 r2 r3 by (intro conjI)
qed


lemma insert_existing_edge:
  "(roleId, permissionId) \<in> role_permission_edges db \<Longrightarrow>
   \<exists>e. insert_role_permission db
         \<lparr>rp_id = newId, rp_roleId = roleId, rp_permissionId = permissionId,
          rp_assignedAt = now, rp_assignedBy = assignedBy\<rparr> = Inl e"
  by (auto simp: insert_role_permission_def role_permission_edges_def list_ex_iff)

text \<open>
  C2, as the code has it. When the edge (role, permission) already exists, the insert
  throws, \<open>RolePermissionRepository.assignPermission\<close> catches it and returns \<open>false\<close>
  (no error reaches the caller), and the database, so the set of edges, is the same after
  the call as before it, through the repository and through
  \<open>RBACService.assignPermissionToRole\<close> alike.
\<close>

theorem assign_existing_edge_unchanged:
  "(roleId, permissionId) \<in> role_permission_edges db \<Longrightarrow>
     assignPermission db newId now roleId permissionId assignedBy = (Inr False, db)
     \<and> snd (assignPermissionToRole db newId now roleId permissionId assignedBy) = db
     \<and> role_permission_edges (snd (assignPermission db newId now roleId permissionId assignedBy))
         = role_permission_edges db
     \<and> role_permission_edges (snd (assignPermissionToRole db newId now roleId permissionId assignedBy))
         = role_permission_edges db"
proof -
  assume "(roleId, permissionId) \<in> role_permission_edges db"
  then obtain e where "insert_role_permission db
         \<lparr>rp_id = newId, rp_roleId = roleId, rp_permissionId = permissionId,
          rp_assignedAt = now, rp_assignedBy = assignedBy\<rparr> = Inl e"
    using insert_existing_edge by blast
  then have r: "assignPermission db newId now roleId permissionId assignedBy = (Inr False, db)"
    by (simp add: assignPermission_def)
  then show ?thesis by (simp add: assignPermissionToRole_def)
qed

theorem assign_existing_edge_unchanged_witness:
  "(''r1'', ''p1'') \<in> role_permission_edges ex_db
   \<and> assignPermission ex_db ''b9'' 5 ''r1'' ''p1'' ''u1'' = (Inr False, ex_db)
   \<and> snd (assignPermissionToRole ex_db ''b9'' 5 ''r1'' ''p1'' ''u1'') = ex_db"
proof -
  have h: "(''r1'', ''p1'') \<in> role_permission_edges ex_db" by code_simp
  show ?thesis using h assign_existing_edge_unchanged[OF h, of "''b9''" 5 "''u1''"] by simp
qed

text \<open>
  C2 as stated asks for a Conflict failure. On the example database the edge
  (\<open>r1\<close>, \<open>p1\<close>) exists; assigning it again, the service returns \<open>true\<close> and the
  repository returns \<open>false\<close>: neither call fails with the uniqueness error.
\<close>

theorem assign_existing_edge_counterexample:
  "(''r1'', ''p1'') \<in> role_permission_edges ex_db
   \<and> fst (assignPermissionToRole ex_db ''b9'' 5 ''r1'' ''p1'' ''u1'') = Inr True
   \<and> fst (assignPermission ex_db ''b9'' 5 ''r1'' ''p1'' ''u1'') = Inr False
   \<and> fst (assignPermissionToRole ex_db ''b9'' 5 ''r1'' ''p1'' ''u1'') \<noteq> Inl UniqueViolation
   \<and> fst (assignPermission ex_db ''b9'' 5 ''r1'' ''p1'' ''u1'') \<noteq> Inl UniqueViolation"
  by code_simp

lemma RolePermissionRepository_hasPermission_iff:
  "RolePermissionRepository_hasPermission db roleId permissionName \<longleftrightarrow>
     (\<exists>p\<in>set (getRolePermissions db roleId). perm_name p = permissionName)"
proof -
  have "[p. rp \<leftarrow> tbl_role_permissions db, p \<leftarrow> tbl_permissions db,
          rp_permissionId rp = perm_id p, rp_roleId rp = roleId,
          perm_name p = permissionName]
        = filter (\<lambda>p. perm_name p = permissionName) (getRolePermissions db roleId)"
    unfolding getRolePermissions_def
    by (induction "tbl_role_permissions db" arbitrary: db)
       (auto simp: filter_concat comp_def intro!: arg_cong[where f=concat] map_cong)
  then show ?thesis
    by (auto simp: RolePermissionRepository_hasPermission_def filter_empty_conv)
qed

text \<open>
  C3, as the code has it. \<open>getUserRoles\<close> and \<open>UserRoleRepository.hasRole\<close> filter on
  the active flag of the joined role: every role returned is active, an assignment whose
  role is inactive is never visible, and \<open>hasRole\<close> holds exactly when an assignment of
  the user joins an active role of that name. \<open>getRolePermissions\<close> and
  \<open>RolePermissionRepository.hasPermission\<close> apply no active filter: they return every
  permission joined to an assignment of the role (a permission has no active flag), and
  their result does not depend on the roles table, so not on the role's own flag.
\<close>

theorem graph_reads_active_filter:
  "(\<forall>r\<in>set (getUserRoles db userId). role_isActive r)
   \<and> (\<forall>ur\<in>set (tbl_user_roles db). \<forall>r\<in>set (tbl_roles db).
        ur_roleId ur = role_id r \<and> \<not> role_isActive r \<longrightarrow> r \<notin> set (getUserRoles db userId))
   \<and> (UserRoleRepository_hasRole db userId roleName \<longleftrightarrow>
        (\<exists>ur\<in>set (tbl_user_roles db). \<exists>r\<in>set (tbl_roles db).
           ur_userId ur = userId \<and> ur_roleId ur = role_id r \<and> role_name r = roleName \<and>
           role_isActive r))
   \<and> set (getRolePermissions db roleId) =
        {p \<in> set (tbl_permissions db).
           \<exists>rp\<in>set (tbl_role_permissions db). rp_roleId rp = roleId \<and> rp_permissionId rp = perm_id p}
   \<and> (RolePermissionRepository_hasPermission db roleId permissionName \<longleftrightarrow>
        (\<exists>rp\<in>set (tbl_role_permissions db). \<exists>p\<in>set (tbl_permissions db).
           rp_roleId rp = roleId \<and> rp_permissionId rp = perm_id p \<and> perm_name p = permissionName))
   \<and> getRolePermissions (db\<lparr>tbl_roles := rs\<rparr>) roleId = getRolePermissions db roleId
   \<and> RolePermissionRepository_hasPermission (db\<lparr>tbl_roles := rs\<rparr>) roleId permissionName
        = RolePermissionRepository_hasPermission db roleId permissionName"
proof -
  have a: "\<forall>r\<in>set (getUserRoles db userId). role_isActive r"
    by (simp add: getUserRoles_set)
  have b: "\<forall>ur\<in>set (tbl_user_roles db). \<forall>r\<in>set (tbl_roles db).
        ur_roleId ur = role_id r \<and> \<not> role_isActive r \<longrightarrow> r \<notin> set (getUserRoles db userId)"
    by (simp add: getUserRoles_set)
  have c: "UserRoleRepository_hasRole db userId roleName \<longleftrightarrow>
        (\<exists>ur\<in>set (tbl_user_roles db). \<exists>r\<in>set (tbl_roles db).
           ur_userId ur = userId \<and> ur_roleId ur = role_id r \<and> role_name r = roleName \<and>
           role_isActive r)"
    by (auto simp: UserRoleRepository_hasRole_iff getUserRoles_set)
  have d: "set (getRolePermissions db roleId) =
        {p \<in> set (tbl_permissions db).
           \<exists>rp\<in>set (tbl_role_permissions db). rp_roleId rp = roleId \<and> rp_permissionId rp = perm_id p}"
    by (rule getRolePermissions_set)
  have e: "RolePermissionRepository_hasPermission db roleId permissionName \<longleftrightarrow>
        (\<exists>rp\<in>set (tbl_role_permissions db). \<exists>p\<in>set (tbl_permissions db).
           rp_roleId rp = roleId \<and> rp_permissionId rp = perm_id p \<and> perm_name p = permissionName)"
    by (auto simp: RolePermissionRepository_hasPermission_iff getRolePermissions_set)
  have f: "getRolePermissions (db\<lparr>tbl_roles := rs\<rparr>) roleId = getRolePermissions db roleId"
    by (simp add: getRolePermissions_def)
  have g: "RolePermissionRepository_hasPermission (db\<lparr>tbl_roles := rs\<rparr>) roleId permissionName
        = RolePermissionRepository_hasPermission db roleId permissionName"
    by (simp add: RolePermissionRepository_hasPermission_def)
  from a b c d e f g show ?thesis by (intro conjI)
qed

theorem graph_reads_active_filter_witness:
  "ex_ur ''a3'' ''u1'' ''r3'' \<in> set (tbl_user_roles ex_db)
   \<and> ex_role ''r3'' ''legacy'' False \<in> set (tbl_roles ex_db)
   \<and> ex_role ''r3'' ''legacy'' False \<notin> set (getUserRoles ex_db ''u1'')
   \<and> \<not> UserRoleRepository_hasRole ex_db ''u1'' ''legacy''
   \<and> UserRoleRepository_hasRole ex_db ''u1'' ''admin''
   \<and> getUserRoles ex_db ''u1'' \<noteq> []"
proof -
  note t = graph_reads_active_filter[of ex_db "''u1''" "''legacy''" "''r3''" "''sensitive:read''" "[]"]
  have ur: "ex_ur ''a3'' ''u1'' ''r3'' \<in> set (tbl_user_roles ex_db)" by code_simp
  have r: "ex_role ''r3'' ''legacy'' False \<in> set (tbl_roles ex_db)" by code_simp
  have j: "ur_roleId (ex_ur ''a3'' ''u1'' ''r3'') = role_id (ex_role ''r3'' ''legacy'' False)
           \<and> \<not> role_isActive (ex_role ''r3'' ''legacy'' False)" by code_simp
  have hidden: "ex_role ''r3'' ''legacy'' False \<notin> set (getUserRoles ex_db ''u1'')"
    by (rule t[THEN conjunct2, THEN conjunct1, rule_format, OF ur r j])
  have "\<not> (\<exists>ur\<in>set (tbl_user_roles ex_db). \<exists>r\<in>set (tbl_roles ex_db).
           ur_userId ur = ''u1'' \<and> ur_roleId ur = role_id r \<and> role_name r = ''legacy'' \<and>
           role_isActive r)" by code_simp
  then have no: "\<not> UserRoleRepository_hasRole ex_db ''u1'' ''legacy''"
    by (simp only: t[THEN conjunct2, THEN conjunct2, THEN conjunct1] not_False_eq_True)
  have yes: "UserRoleRepository_hasRole ex_db ''u1'' ''admin''" by code_simp
  have ne: "getUserRoles ex_db ''u1'' \<noteq> []" by code_simp
  from ur r hidden no yes ne show ?thesis by (intro conjI)
qed


text \<open>
  C3 as stated has all four reads filter on an active flag. On the example database the
  role \<open>r3\<close> is inactive, and its assignment to \<open>p3\<close> is visible in
  \<open>getRolePermissions\<close> and in \<open>RolePermissionRepository.hasPermission\<close>.
\<close>

theorem graph_reads_active_filter_counterexample:
  "ex_role ''r3'' ''legacy'' False \<in> set (tbl_roles ex_db)
   \<and> \<not> role_isActive (ex_role ''r3'' ''legacy'' False)
   \<and> ex_rp ''b4'' ''r3'' ''p3'' \<in> set (tbl_role_permissions ex_db)
   \<and> getRolePermissions ex_db ''r3'' = [ex_perm ''p3'' ''sensitive'' ''read'']
   \<and> RolePermissionRepository_hasPermission ex_db ''r3'' ''sensitive:read''"
  by code_simp

text \<open>
  C4. \<open>authenticateUser\<close> returns \<open>null\<close> (\<open>None\<close>) when no user has the username, when
  the user is inactive, and when the password does not match the stored hash: the same
  value in the three cases, and in no other case.
\<close>

theorem authenticateUser_failures_null:
  "(findByUsername db username = None \<longrightarrow>
      authenticateUser compare sign config db username password = None)
   \<and> (\<forall>user. findByUsername db username = Some user \<and> \<not> user_isActive user \<longrightarrow>
      authenticateUser compare sign config db username password = None)
   \<and> (\<forall>user. findByUsername db username = Some user \<and> \<not> compare password (user_password user) \<longrightarrow>
      authenticateUser compare sign config db username password = None)
   \<and> (authenticateUser compare sign config db username password = None \<longleftrightarrow>
        (case findByUsername db username of
           None \<Rightarrow> True
         | Some user \<Rightarrow> \<not> user_isActive user \<or> \<not> compare password (user_password user)))"
  by (auto simp: authenticateUser_def Let_def split: option.splits)

theorem authenticateUser_failures_null_witness:
  "findByUsername ex_db ''nobody'' = None
   \<and> authenticateUser ex_compare (jwt_sign ex_mac 1000) ex_config ex_db ''nobody'' ''wonderland'' = None
   \<and> findByUsername ex_db ''bob'' = Some (ex_user ''u2'' ''bob'' ''hash(builder)'' False)
   \<and> ex_compare ''builder'' ''hash(builder)''
   \<and> authenticateUser ex_compare (jwt_sign ex_mac 1000) ex_config ex_db ''bob'' ''builder'' = None
   \<and> findByUsername ex_db ''alice'' = Some (ex_user ''u1'' ''alice'' ''hash(wonderland)'' True)
   \<and> authenticateUser ex_compare (jwt_sign ex_mac 1000) ex_config ex_db ''alice'' ''rabbit'' = None
   \<and> authenticateUser ex_compare (jwt_sign ex_mac 1000) ex_config ex_db ''alice'' ''wonderland'' \<noteq> None"
proof -
  have n: "findByUsername ex_db ''nobody'' = None" by code_simp
  have b: "findByUsername ex_db ''bob'' = Some (ex_user ''u2'' ''bob'' ''hash(builder)'' False)"
    by code_simp
  have bi: "\<not> user_isActive (ex_user ''u2'' ''bob'' ''hash(builder)'' False)" by code_simp
  have bc: "ex_compare ''builder'' ''hash(builder)''" by code_simp
  have a: "findByUsername ex_db ''alice'' = Some (ex_user ''u1'' ''alice'' ''hash(wonderland)'' True)"
    by code_simp
  have aw: "\<not> ex_compare ''rabbit'' (user_password (ex_user ''u1'' ''alice'' ''hash(wonderland)'' True))"
    by code_simp
  have ar: "user_isActive (ex_user ''u1'' ''alice'' ''hash(wonderland)'' True) \<and>
            ex_compare ''wonderland'' (user_password (ex_user ''u1'' ''alice'' ''hash(wonderland)'' True))"
    by code_simp
  note t = authenticateUser_failures_null[of ex_db _ ex_compare "jwt_sign ex_mac 1000" ex_config]
  have 1: "authenticateUser ex_compare (jwt_sign ex_mac 1000) ex_config ex_db ''nobody'' ''wonderland'' = None"
    using t[of "''nobody''" "''wonderland''"] n by blast
  have 2: "authenticateUser ex_compare (jwt_sign ex_mac 1000) ex_config ex_db ''bob'' ''builder'' = None"
    using t[of "''bob''" "''builder''"] b bi by blast
  have 3: "authenticateUser ex_compare (jwt_sign ex_mac 1000) ex_config ex_db ''alice'' ''rabbit'' = None"
    using t[of "''alice''" "''rabbit''"] a aw by blast
  have 4: "authenticateUser ex_compare (jwt_sign ex_mac 1000) ex_config ex_db ''alice'' ''wonderland'' \<noteq> None"
    using t[of "''alice''" "''wonderland''"] a ar by simp
  from n 1 b bc 2 a 3 4 show ?thesis by (intro conjI)
qed


section \<open>The token codec\<close>

lemma dec_digits: "list_all is_digit (dec n)"
proof (induction n rule: dec.induct)
  case (1 n)
  show ?case
  proof (cases "n < 10")
    case True
    then show ?thesis by (subst dec.simps) (simp add: is_digit_def)
  next
    case False
    have "n mod 10 < 10" by simp
    then have "is_digit (char_of (48 + n mod 10))" by (simp add: is_digit_def)
    with False 1 show ?thesis by (subst dec.simps) simp
  qed
qed

lemma dec_nonempty: "dec n \<noteq> []"
  by (subst dec.simps) simp

lemma dec_value: "foldl (\<lambda>acc c. 10 * acc + (of_char c - 48)) 0 (dec n) = n"
proof (induction n rule: dec.induct)
  case (1 n)
  show ?case
  proof (cases "n < 10")
    case True
    then show ?thesis by (subst dec.simps) simp
  next
    case False
    have "n mod 10 < 10" by simp
    then have d: "(of_char (char_of (48 + n mod 10) :: char) :: nat) = 48 + n mod 10" by simp
    from False 1 d show ?thesis by (subst dec.simps) simp
  qed
qed

lemma parse_nat_dec: "parse_nat (dec n) = Some n"
  by (simp add: parse_nat_def dec_nonempty dec_digits dec_value)

lemma dec_no_colon: "CHR '':'' \<notin> set (dec n)"
proof
  assume "CHR '':'' \<in> set (dec n)"
  then have "is_digit CHR '':''" using dec_digits[of n] by (simp add: list_all_iff)
  then show False by (simp add: is_digit_def)
qed

lemma takeWhile_upto: "c \<notin> set xs \<Longrightarrow> takeWhile (\<lambda>x. x \<noteq> c) (xs @ c # ys) = xs"
  by (induction xs) auto

lemma dropWhile_upto: "c \<notin> set xs \<Longrightarrow> dropWhile (\<lambda>x. x \<noteq> c) (xs @ c # ys) = c # ys"
  by (induction xs) auto

lemma take_nat_put_nat: "take_nat (put_nat n @ rest) = Some (n, rest)"
proof -
  have tw: "takeWhile (\<lambda>c. c \<noteq> CHR '':'') (dec n @ CHR '':'' # rest) = dec n"
    using dec_no_colon[of n] by (rule takeWhile_upto)
  have dw: "dropWhile (\<lambda>c. c \<noteq> CHR '':'') (dec n @ CHR '':'' # rest) = CHR '':'' # rest"
    using dec_no_colon[of n] by (rule dropWhile_upto)
  show ?thesis by (simp add: take_nat_def put_nat_def tw dw parse_nat_dec)
qed

lemma take_str_put_str: "take_str (put_str s @ rest) = Some (s, rest)"
  by (simp add: take_str_def put_str_def take_nat_put_nat)

lemma take_strs_put: "take_strs (length xs) (concat (map put_str xs) @ rest) = Some (xs, rest)"
  by (induction xs) (simp_all add: take_str_put_str)

lemma take_list_put_list: "take_list (put_list xs @ rest) = Some (xs, rest)"
  by (simp add: take_list_def put_list_def take_nat_put_nat take_strs_put)

lemma decode_encode:
  "decode_payload (encode_payload p iat exp) =
     Some (p\<lparr>jwt_iat := Some iat, jwt_exp := Some exp\<rparr>)"
proof -
  have "take_nat (put_nat exp) = Some (exp, [])"
    using take_nat_put_nat[of exp "[]"] by simp
  then show ?thesis
    by (simp add: decode_payload_def encode_payload_def take_str_put_str take_list_put_list
        take_nat_put_nat)
qed

lemma jwt_roundtrip:
  "jwt_verify mac now' (jwt_sign mac now p secret ttl) secret =
     (if now + ttl \<le> now' then Inl TokenExpired
      else Inr (p\<lparr>jwt_iat := Some now, jwt_exp := Some (now + ttl)\<rparr>))"
  by (simp add: jwt_verify_def jwt_sign_def Let_def take_str_put_str decode_encode)

lemma jwt_wrong_secret:
  "mac secret' (encode_payload p now (now + ttl)) \<noteq> mac secret (encode_payload p now (now + ttl))
   \<Longrightarrow> jwt_verify mac now' (jwt_sign mac now p secret' ttl) secret = Inl InvalidSignature"
  by (simp add: jwt_verify_def jwt_sign_def Let_def take_str_put_str)

text \<open>
  C5. With the token library as modelled, for every claims payload, keyed hash and
  configuration: a token made by \<open>generateToken\<close> at second \<open>now\<close> and verified by
  \<open>verifyToken\<close> with the same configuration before \<open>now + expiresIn\<close> gives back the
  claims unchanged, with \<open>iat\<close> and \<open>exp\<close> added; verified from \<open>now + expiresIn\<close> on
  it gives \<open>null\<close>.
\<close>

theorem token_roundtrip:
  "(now' < now + jwt_expiresIn config \<longrightarrow>
      verifyToken (jwt_verify mac now') config (generateToken (jwt_sign mac now) config claims)
        = Some (claims\<lparr>jwt_iat := Some now, jwt_exp := Some (now + jwt_expiresIn config)\<rparr>))
   \<and> (now + jwt_expiresIn config \<le> now' \<longrightarrow>
      verifyToken (jwt_verify mac now') config (generateToken (jwt_sign mac now) config claims)
        = None)"
  by (simp add: verifyToken_def generateToken_def jwt_roundtrip)

theorem token_roundtrip_witness:
  "(2000::nat) < 1000 + jwt_expiresIn ex_config
   \<and> verifyToken (jwt_verify ex_mac 2000) ex_config
        (generateToken (jwt_sign ex_mac 1000) ex_config
           (ex_claims [''admin'', ''editor''] [''content:read'', ''content:delete'']))
      = Some ((ex_claims [''admin'', ''editor''] [''content:read'', ''content:delete''])
                \<lparr>jwt_iat := Some 1000, jwt_exp := Some 4600\<rparr>)
   \<and> 1000 + jwt_expiresIn ex_config \<le> (4600::nat)
   \<and> verifyToken (jwt_verify ex_mac 4600) ex_config
        (generateToken (jwt_sign ex_mac 1000) ex_config
           (ex_claims [''admin'', ''editor''] [''content:read'', ''content:delete'']))
      = None"
proof -
  have ttl: "jwt_expiresIn ex_config = 3600" by (simp add: ex_config_def)
  have a: "(2000::nat) < 1000 + jwt_expiresIn ex_config" by (simp add: ttl)
  have b: "1000 + jwt_expiresIn ex_config \<le> (4600::nat)" by (simp add: ttl)
  show ?thesis
    using a b
      token_roundtrip[of 2000 1000 ex_config ex_mac
        "ex_claims [''admin'', ''editor''] [''content:read'', ''content:delete'']"]
      token_roundtrip[of 4600 1000 ex_config ex_mac
        "ex_claims [''admin'', ''editor''] [''content:read'', ''content:delete'']"]
    by (simp add: ttl)
qed

text \<open>
  C6. \<open>verifyToken\<close> fails closed. Whatever the library's \<open>verify\<close> does, the wrapper
  returns \<open>null\<close> exactly when \<open>verify\<close> throws and the payload when it returns, so no
  error reaches the caller. With the library as modelled, a token that does not parse, a
  tag that is not the keyed hash of the body under the secret, a body that does not
  decode, and an \<open>exp\<close> that has passed each give \<open>null\<close>.
\<close>

theorem verifyToken_fails_closed:
  "(verifyToken verify config token = None \<longleftrightarrow> (\<exists>e. verify token (jwt_secret config) = Inl e))
   \<and> (\<forall>e. verify token (jwt_secret config) = Inl e \<longrightarrow> verifyToken verify config token = None)
   \<and> (\<forall>p. verify token (jwt_secret config) = Inr p \<longrightarrow> verifyToken verify config token = Some p)
   \<and> (take_str token = None \<longrightarrow> verifyToken (jwt_verify mac now) config token = None)
   \<and> (\<forall>body tag. take_str token = Some (body, tag) \<and> tag \<noteq> mac (jwt_secret config) body \<longrightarrow>
        verifyToken (jwt_verify mac now) config token = None)
   \<and> (\<forall>body tag. take_str token = Some (body, tag) \<and> decode_payload body = None \<longrightarrow>
        verifyToken (jwt_verify mac now) config token = None)
   \<and> (\<forall>body tag p exp. take_str token = Some (body, tag) \<and> decode_payload body = Some p \<and>
        jwt_exp p = Some exp \<and> exp \<le> now \<longrightarrow>
        verifyToken (jwt_verify mac now) config token = None)"
  by (auto simp: verifyToken_def jwt_verify_def split: sum.splits option.splits)

theorem verifyToken_fails_closed_witness:
  "jwt_verify ex_mac 2000 ''invalid.token.here'' (jwt_secret ex_config) = Inl Malformed
   \<and> verifyToken (jwt_verify ex_mac 2000) ex_config ''invalid.token.here'' = None
   \<and> jwt_verify ex_mac 2000 (jwt_sign ex_mac 1000 (ex_claims [''admin''] []) ''other'' 3600)
        (jwt_secret ex_config) = Inl InvalidSignature
   \<and> verifyToken (jwt_verify ex_mac 2000) ex_config
        (jwt_sign ex_mac 1000 (ex_claims [''admin''] []) ''other'' 3600) = None
   \<and> jwt_verify ex_mac 4600 (jwt_sign ex_mac 1000 (ex_claims [''admin''] []) ''s3cret'' 3600)
        (jwt_secret ex_config) = Inl TokenExpired
   \<and> verifyToken (jwt_verify ex_mac 4600) ex_config
        (jwt_sign ex_mac 1000 (ex_claims [''admin''] []) ''s3cret'' 3600) = None
   \<and> verifyToken (jwt_verify ex_mac 2000) ex_config
        (jwt_sign ex_mac 1000 (ex_claims [''admin''] []) ''s3cret'' 3600)
      = Some ((ex_claims [''admin''] [])\<lparr>jwt_iat := Some 1000, jwt_exp := Some 4600\<rparr>)"
proof -
  have e1: "jwt_verify ex_mac 2000 ''invalid.token.here'' (jwt_secret ex_config) = Inl Malformed"
    by code_simp
  have e2: "jwt_verify ex_mac 2000 (jwt_sign ex_mac 1000 (ex_claims [''admin''] []) ''other'' 3600)
        (jwt_secret ex_config) = Inl InvalidSignature"
    by (rule jwt_wrong_secret) (simp add: ex_mac_def ex_config_def)
  have e3: "jwt_verify ex_mac 4600 (jwt_sign ex_mac 1000 (ex_claims [''admin''] []) ''s3cret'' 3600)
        (jwt_secret ex_config) = Inl TokenExpired"
    by (simp add: jwt_roundtrip ex_config_def)
  have e4: "jwt_verify ex_mac 2000 (jwt_sign ex_mac 1000 (ex_claims [''admin''] []) ''s3cret'' 3600)
        (jwt_secret ex_config)
      = Inr ((ex_claims [''admin''] [])\<lparr>jwt_iat := Some 1000, jwt_exp := Some 4600\<rparr>)"
    by (simp add: jwt_roundtrip ex_config_def)
  note n1 = verifyToken_fails_closed[of "jwt_verify ex_mac 2000" ex_config "''invalid.token.here''"
      ex_mac 2000, THEN conjunct2, THEN conjunct1, rule_format, OF e1]
  note n2 = verifyToken_fails_closed[of "jwt_verify ex_mac 2000" ex_config
      "jwt_sign ex_mac 1000 (ex_claims [''admin''] []) ''other'' 3600"
      ex_mac 2000, THEN conjunct2, THEN conjunct1, rule_format, OF e2]
  note n3 = verifyToken_fails_closed[of "jwt_verify ex_mac 4600" ex_config
      "jwt_sign ex_mac 1000 (ex_claims [''admin''] []) ''s3cret'' 3600"
      ex_mac 4600, THEN conjunct2, THEN conjunct1, rule_format, OF e3]
  note n4 = verifyToken_fails_closed[of "jwt_verify ex_mac 2000" ex_config
      "jwt_sign ex_mac 1000 (ex_claims [''admin''] []) ''s3cret'' 3600"
      ex_mac 2000, THEN conjunct2, THEN conjunct2, THEN conjunct1, rule_format, OF e4]
  from e1 n1 e2 n2 e3 n3 n4 show ?thesis by (intro conjI)
qed

section \<open>The gates\<close>

text \<open>
  C7. For every identity and every check, \<open>requireAdminOrPermission\<close> passes exactly when
  \<open>admin\<close> is among the identity's roles or \<open>requirePermission\<close> passes: it passes for
  an admin whatever the permissions, it passes for a holder of \<open>resource:action\<close>, and it
  answers 403 for an identity that is no admin and holds the permission in neither form.
\<close>

theorem requireAdminOrPermission_iff:
  "(RBACMiddleware_requireAdminOrPermission check (Some u) = Next \<longleftrightarrow>
      ''admin'' \<in> set (jwt_roles u) \<or> RBACMiddleware_requirePermission check (Some u) = Next)
   \<and> (''admin'' \<in> set (jwt_roles u) \<longrightarrow>
        RBACMiddleware_requireAdminOrPermission check (Some u) = Next)
   \<and> (pc_resource check @ '':'' @ pc_action check \<in> set (jwt_permissions u) \<longrightarrow>
        RBACMiddleware_requireAdminOrPermission check (Some u) = Next)
   \<and> (''admin'' \<notin> set (jwt_roles u) \<and>
        pc_resource check @ '':'' @ pc_action check \<notin> set (jwt_permissions u) \<and>
        pc_resource check @ ''.'' @ pc_action check \<notin> set (jwt_permissions u) \<longrightarrow>
        RBACMiddleware_requireAdminOrPermission check (Some u) = Status 403)"
  by (auto simp: RBACMiddleware_requireAdminOrPermission_def RBACMiddleware_requirePermission_def
        Let_def list_ex_iff)

theorem requireAdminOrPermission_iff_witness:
  "''admin'' \<in> set (jwt_roles (ex_claims [''admin''] []))
   \<and> RBACMiddleware_requirePermission ex_check (Some (ex_claims [''admin''] [])) = Status 403
   \<and> RBACMiddleware_requireAdminOrPermission ex_check (Some (ex_claims [''admin''] [])) = Next
   \<and> ''admin'' \<notin> set (jwt_roles (ex_claims [''editor''] [''sensitive:read'']))
   \<and> RBACMiddleware_requireAdminOrPermission ex_check
        (Some (ex_claims [''editor''] [''sensitive:read''])) = Next
   \<and> RBACMiddleware_requireAdminOrPermission ex_check
        (Some (ex_claims [''editor''] [''content:read''])) = Status 403"
proof -
  have a: "''admin'' \<in> set (jwt_roles (ex_claims [''admin''] []))" by code_simp
  have a0: "RBACMiddleware_requirePermission ex_check (Some (ex_claims [''admin''] [])) = Status 403"
    by code_simp
  have b: "''admin'' \<notin> set (jwt_roles (ex_claims [''editor''] [''sensitive:read'']))" by code_simp
  have b1: "pc_resource ex_check @ '':'' @ pc_action ex_check
              \<in> set (jwt_permissions (ex_claims [''editor''] [''sensitive:read'']))" by code_simp
  have c: "''admin'' \<notin> set (jwt_roles (ex_claims [''editor''] [''content:read''])) \<and>
           pc_resource ex_check @ '':'' @ pc_action ex_check
              \<notin> set (jwt_permissions (ex_claims [''editor''] [''content:read''])) \<and>
           pc_resource ex_check @ ''.'' @ pc_action ex_check
              \<notin> set (jwt_permissions (ex_claims [''editor''] [''content:read'']))" by code_simp
  note n1 = requireAdminOrPermission_iff[of ex_check "ex_claims [''admin''] []",
      THEN conjunct2, THEN conjunct1, rule_format, OF a]
  note n2 = requireAdminOrPermission_iff[of ex_check "ex_claims [''editor''] [''sensitive:read'']",
      THEN conjunct2, THEN conjunct2, THEN conjunct1, rule_format, OF b1]
  note n3 = requireAdminOrPermission_iff[of ex_check "ex_claims [''editor''] [''content:read'']",
      THEN conjunct2, THEN conjunct2, THEN conjunct2, rule_format, OF c]
  from a a0 n1 b n2 n3 show ?thesis by (intro conjI)
qed

lemma promise_all_Inr:
  "promise_all (map (\<lambda>x. Inr (f x)) xs) = Inr (map f xs)"
  by (induction xs) simp_all

lemma RBACMiddleware_unauthenticated:
  "RBACMiddleware_requireRole roleName None = Status 401"
  "RBACMiddleware_requirePermission check None = Status 401"
  "RBACMiddleware_requireAnyRole roleNames None = Status 401"
  "RBACMiddleware_requireAnyPermission checks None = Status 401"
  "RBACMiddleware_requireAdminOrPermission check None = Status 401"
  by (simp_all add: RBACMiddleware_requireRole_def RBACMiddleware_requirePermission_def
      RBACMiddleware_requireAnyRole_def RBACMiddleware_requireAnyPermission_def
      RBACMiddleware_requireAdminOrPermission_def)

lemma AuthMiddleware_unauthenticated:
  "AuthMiddleware_requireRole svc roleName None = Status 401"
  "AuthMiddleware_requirePermission svc check None = Status 401"
  "AuthMiddleware_requireAnyRole svc roleNames None = Status 401"
  "AuthMiddleware_requireAnyPermission svc checks None = Status 401"
  by (simp_all add: AuthMiddleware_requireRole_def AuthMiddleware_requirePermission_def
      AuthMiddleware_requireAnyRole_def AuthMiddleware_requireAnyPermission_def)

lemma RBACMiddleware_requireRole_Some:
  "RBACMiddleware_requireRole roleName (Some u) =
     (if roleName \<in> set (jwt_roles u) then Next else Status 403)"
  by (simp add: RBACMiddleware_requireRole_def)

lemma RBACMiddleware_requirePermission_Some:
  "RBACMiddleware_requirePermission check (Some u) =
     (if pc_resource check @ '':'' @ pc_action check \<in> set (jwt_permissions u) \<or>
         pc_resource check @ ''.'' @ pc_action check \<in> set (jwt_permissions u)
      then Next else Status 403)"
  by (auto simp: RBACMiddleware_requirePermission_def list_ex_iff)

lemma RBACMiddleware_requireAnyRole_Some:
  "RBACMiddleware_requireAnyRole roleNames (Some u) =
     (if \<exists>roleName\<in>set roleNames. roleName \<in> set (jwt_roles u) then Next else Status 403)"
  by (simp add: RBACMiddleware_requireAnyRole_def list_ex_iff)

lemma RBACMiddleware_requireAnyPermission_Some:
  "RBACMiddleware_requireAnyPermission checks (Some u) =
     (if \<exists>check\<in>set checks.
           pc_resource check @ '':'' @ pc_action check \<in> set (jwt_permissions u) \<or>
           pc_resource check @ ''.'' @ pc_action check \<in> set (jwt_permissions u)
      then Next else Status 403)"
  by (auto simp: RBACMiddleware_requireAnyPermission_def list_ex_iff)

lemma RBACMiddleware_requireAdminOrPermission_Some:
  "RBACMiddleware_requireAdminOrPermission check (Some u) =
     (if ''admin'' \<in> set (jwt_roles u) \<or>
         pc_resource check @ '':'' @ pc_action check \<in> set (jwt_permissions u) \<or>
         pc_resource check @ ''.'' @ pc_action check \<in> set (jwt_permissions u)
      then Next else Status 403)"
  by (auto simp: RBACMiddleware_requireAdminOrPermission_def list_ex_iff)

lemma AuthMiddleware_requireRole_live:
  "AuthMiddleware_requireRole (rbacService db) roleName (Some u) =
     (if RBACService_hasRole db (jwt_userId u) roleName then Next else Status 403)"
  by (simp add: AuthMiddleware_requireRole_def rbacService_def)

lemma AuthMiddleware_requirePermission_live:
  "AuthMiddleware_requirePermission (rbacService db) check (Some u) =
     (if RBACService_hasPermission db (jwt_userId u) check then Next else Status 403)"
  by (simp add: AuthMiddleware_requirePermission_def rbacService_def)

lemma AuthMiddleware_requireAnyRole_live:
  "AuthMiddleware_requireAnyRole (rbacService db) roleNames (Some u) =
     (if \<exists>roleName\<in>set roleNames. RBACService_hasRole db (jwt_userId u) roleName
      then Next else Status 403)"
  by (simp add: AuthMiddleware_requireAnyRole_def rbacService_def promise_all_Inr list_ex_iff)

lemma AuthMiddleware_requireAnyPermission_live:
  "AuthMiddleware_requireAnyPermission (rbacService db) checks (Some u) =
     (if \<exists>check\<in>set checks. RBACService_hasPermission db (jwt_userId u) check
      then Next else Status 403)"
  by (simp add: AuthMiddleware_requireAnyPermission_def rbacService_def promise_all_Inr list_ex_iff)

lemma AuthMiddleware_authenticated:
  "AuthMiddleware_requireRole svc roleName (Some u) \<in> {Next, Status 403, Status 500}"
  "AuthMiddleware_requirePermission svc check (Some u) \<in> {Next, Status 403, Status 500}"
  "AuthMiddleware_requireAnyRole svc roleNames (Some u) \<in> {Next, Status 403, Status 500}"
  "AuthMiddleware_requireAnyPermission svc checks (Some u) \<in> {Next, Status 403, Status 500}"
  by (simp_all add: AuthMiddleware_requireRole_def AuthMiddleware_requirePermission_def
      AuthMiddleware_requireAnyRole_def AuthMiddleware_requireAnyPermission_def
      split: sum.splits)

lemma promise_all_all_False:
  "(\<forall>x\<in>set xs. f x = Inr False) \<Longrightarrow> promise_all (map f xs) = Inr (map (\<lambda>_. False) xs)"
  by (induction xs) simp_all

lemma promise_all_rejects:
  "(\<exists>x\<in>set xs. \<exists>e. f x = Inl e) \<Longrightarrow> \<exists>e. promise_all (map f xs) = Inl e"
proof (induction xs)
  case Nil
  then show ?case by simp
next
  case (Cons a xs)
  show ?case
  proof (cases "f a")
    case (Inl e)
    then show ?thesis by simp
  next
    case (Inr v)
    with Cons.prems have "\<exists>x\<in>set xs. \<exists>e. f x = Inl e" by auto
    then obtain e where "promise_all (map f xs) = Inl e" using Cons.IH by blast
    with Inr show ?thesis by simp
  qed
qed

lemma AuthMiddleware_forbidden:
  "svc_hasRole svc (jwt_userId u) roleName = Inr False \<longrightarrow>
     AuthMiddleware_requireRole svc roleName (Some u) = Status 403"
  "svc_hasPermission svc (jwt_userId u) check = Inr False \<longrightarrow>
     AuthMiddleware_requirePermission svc check (Some u) = Status 403"
  "(\<forall>r\<in>set roleNames. svc_hasRole svc (jwt_userId u) r = Inr False) \<longrightarrow>
     AuthMiddleware_requireAnyRole svc roleNames (Some u) = Status 403"
  "(\<forall>c\<in>set checks. svc_hasPermission svc (jwt_userId u) c = Inr False) \<longrightarrow>
     AuthMiddleware_requireAnyPermission svc checks (Some u) = Status 403"
  by (simp_all add: AuthMiddleware_requireRole_def AuthMiddleware_requirePermission_def
      AuthMiddleware_requireAnyRole_def AuthMiddleware_requireAnyPermission_def
      promise_all_all_False list_ex_iff)

lemma AuthMiddleware_caught:
  "(\<exists>e. svc_hasRole svc (jwt_userId u) roleName = Inl e) \<longrightarrow>
     AuthMiddleware_requireRole svc roleName (Some u) = Status 500"
  "(\<exists>e. svc_hasPermission svc (jwt_userId u) check = Inl e) \<longrightarrow>
     AuthMiddleware_requirePermission svc check (Some u) = Status 500"
  "(\<exists>r\<in>set roleNames. \<exists>e. svc_hasRole svc (jwt_userId u) r = Inl e) \<longrightarrow>
     AuthMiddleware_requireAnyRole svc roleNames (Some u) = Status 500"
  "(\<exists>c\<in>set checks. \<exists>e. svc_hasPermission svc (jwt_userId u) c = Inl e) \<longrightarrow>
     AuthMiddleware_requireAnyPermission svc checks (Some u) = Status 500"
proof -
  show "(\<exists>e. svc_hasRole svc (jwt_userId u) roleName = Inl e) \<longrightarrow>
     AuthMiddleware_requireRole svc roleName (Some u) = Status 500"
    by (auto simp: AuthMiddleware_requireRole_def)
  show "(\<exists>e. svc_hasPermission svc (jwt_userId u) check = Inl e) \<longrightarrow>
     AuthMiddleware_requirePermission svc check (Some u) = Status 500"
    by (auto simp: AuthMiddleware_requirePermission_def)
  show "(\<exists>r\<in>set roleNames. \<exists>e. svc_hasRole svc (jwt_userId u) r = Inl e) \<longrightarrow>
     AuthMiddleware_requireAnyRole svc roleNames (Some u) = Status 500"
  proof
    assume "\<exists>r\<in>set roleNames. \<exists>e. svc_hasRole svc (jwt_userId u) r = Inl e"
    then obtain e where
      "promise_all (map (\<lambda>roleName. svc_hasRole svc (jwt_userId u) roleName) roleNames) = Inl e"
      using promise_all_rejects[of roleNames "\<lambda>roleName. svc_hasRole svc (jwt_userId u) roleName"]
      by blast
    then show "AuthMiddleware_requireAnyRole svc roleNames (Some u) = Status 500"
      by (simp add: AuthMiddleware_requireAnyRole_def)
  qed
  show "(\<exists>c\<in>set checks. \<exists>e. svc_hasPermission svc (jwt_userId u) c = Inl e) \<longrightarrow>
     AuthMiddleware_requireAnyPermission svc checks (Some u) = Status 500"
  proof
    assume "\<exists>c\<in>set checks. \<exists>e. svc_hasPermission svc (jwt_userId u) c = Inl e"
    then obtain e where
      "promise_all (map (\<lambda>c. svc_hasPermission svc (jwt_userId u) c) checks) = Inl e"
      using promise_all_rejects[of checks "\<lambda>c. svc_hasPermission svc (jwt_userId u) c"]
      by blast
    then show "AuthMiddleware_requireAnyPermission svc checks (Some u) = Status 500"
      by (simp add: AuthMiddleware_requireAnyPermission_def)
  qed
qed

text \<open>
  C8. Every gate answers 401 when \<open>req.user\<close> is absent. With an identity, a gate of
  \<open>RBACMiddleware\<close> passes when the grant is in the claims and answers 403 otherwise; a
  gate of \<open>AuthMiddleware\<close> over a database that answers passes when the live query
  finds the grant and answers 403 otherwise. Over any service, it passes or answers 403 or
  500, never 401: 403 when every query it awaits resolves to \<open>false\<close>, 500 when one
  rejects, which is what the source catches. Each gate is a total function into these
  outcomes.
\<close>

theorem gates_classify_failures:
  "(RBACMiddleware_requireRole roleName None = Status 401
    \<and> RBACMiddleware_requirePermission check None = Status 401
    \<and> RBACMiddleware_requireAnyRole roleNames None = Status 401
    \<and> RBACMiddleware_requireAnyPermission checks None = Status 401
    \<and> RBACMiddleware_requireAdminOrPermission check None = Status 401
    \<and> AuthMiddleware_requireRole svc roleName None = Status 401
    \<and> AuthMiddleware_requirePermission svc check None = Status 401
    \<and> AuthMiddleware_requireAnyRole svc roleNames None = Status 401
    \<and> AuthMiddleware_requireAnyPermission svc checks None = Status 401)
   \<and> (RBACMiddleware_requireRole roleName (Some u) =
         (if roleName \<in> set (jwt_roles u) then Next else Status 403)
    \<and> RBACMiddleware_requirePermission check (Some u) =
         (if pc_resource check @ '':'' @ pc_action check \<in> set (jwt_permissions u) \<or>
             pc_resource check @ ''.'' @ pc_action check \<in> set (jwt_permissions u)
          then Next else Status 403)
    \<and> RBACMiddleware_requireAnyRole roleNames (Some u) =
         (if \<exists>roleName\<in>set roleNames. roleName \<in> set (jwt_roles u) then Next else Status 403)
    \<and> RBACMiddleware_requireAnyPermission checks (Some u) =
         (if \<exists>check\<in>set checks.
               pc_resource check @ '':'' @ pc_action check \<in> set (jwt_permissions u) \<or>
               pc_resource check @ ''.'' @ pc_action check \<in> set (jwt_permissions u)
          then Next else Status 403)
    \<and> RBACMiddleware_requireAdminOrPermission check (Some u) =
         (if ''admin'' \<in> set (jwt_roles u) \<or>
             pc_resource check @ '':'' @ pc_action check \<in> set (jwt_permissions u) \<or>
             pc_resource check @ ''.'' @ pc_action check \<in> set (jwt_permissions u)
          then Next else Status 403))
   \<and> (AuthMiddleware_requireRole (rbacService db) roleName (Some u) =
         (if RBACService_hasRole db (jwt_userId u) roleName then Next else Status 403)
    \<and> AuthMiddleware_requirePermission (rbacService db) check (Some u) =
         (if RBACService_hasPermission db (jwt_userId u) check then Next else Status 403)
    \<and> AuthMiddleware_requireAnyRole (rbacService db) roleNames (Some u) =
         (if \<exists>roleName\<in>set roleNames. RBACService_hasRole db (jwt_userId u) roleName
          then Next else Status 403)
    \<and> AuthMiddleware_requireAnyPermission (rbacService db) checks (Some u) =
         (if \<exists>check\<in>set checks. RBACService_hasPermission db (jwt_userId u) check
          then Next else Status 403))
   \<and> (AuthMiddleware_requireRole svc roleName (Some u) \<in> {Next, Status 403, Status 500}
    \<and> AuthMiddleware_requirePermission svc check (Some u) \<in> {Next, Status 403, Status 500}
    \<and> AuthMiddleware_requireAnyRole svc roleNames (Some u) \<in> {Next, Status 403, Status 500}
    \<and> AuthMiddleware_requireAnyPermission svc checks (Some u) \<in> {Next, Status 403, Status 500})
   \<and> ((svc_hasRole svc (jwt_userId u) roleName = Inr False \<longrightarrow>
         AuthMiddleware_requireRole svc roleName (Some u) = Status 403)
    \<and> (svc_hasPermission svc (jwt_userId u) check = Inr False \<longrightarrow>
         AuthMiddleware_requirePermission svc check (Some u) = Status 403)
    \<and> ((\<forall>r\<in>set roleNames. svc_hasRole svc (jwt_userId u) r = Inr False) \<longrightarrow>
         AuthMiddleware_requireAnyRole svc roleNames (Some u) = Status 403)
    \<and> ((\<forall>c\<in>set checks. svc_hasPermission svc (jwt_userId u) c = Inr False) \<longrightarrow>
         AuthMiddleware_requireAnyPermission svc checks (Some u) = Status 403))
   \<and> (((\<exists>e. svc_hasRole svc (jwt_userId u) roleName = Inl e) \<longrightarrow>
         AuthMiddleware_requireRole svc roleName (Some u) = Status 500)
    \<and> ((\<exists>e. svc_hasPermission svc (jwt_userId u) check = Inl e) \<longrightarrow>
         AuthMiddleware_requirePermission svc check (Some u) = Status 500)
    \<and> ((\<exists>r\<in>set roleNames. \<exists>e. svc_hasRole svc (jwt_userId u) r = Inl e) \<longrightarrow>
         AuthMiddleware_requireAnyRole svc roleNames (Some u) = Status 500)
    \<and> ((\<exists>c\<in>set checks. \<exists>e. svc_hasPermission svc (jwt_userId u) c = Inl e) \<longrightarrow>
         AuthMiddleware_requireAnyPermission svc checks (Some u) = Status 500))"
  by (intro conjI RBACMiddleware_unauthenticated AuthMiddleware_unauthenticated
      AuthMiddleware_forbidden AuthMiddleware_caught
      RBACMiddleware_requireRole_Some RBACMiddleware_requirePermission_Some
      RBACMiddleware_requireAnyRole_Some RBACMiddleware_requireAnyPermission_Some
      RBACMiddleware_requireAdminOrPermission_Some
      AuthMiddleware_requireRole_live AuthMiddleware_requirePermission_live
      AuthMiddleware_requireAnyRole_live AuthMiddleware_requireAnyPermission_live
      AuthMiddleware_authenticated)

theorem gates_classify_failures_witness:
  "RBACMiddleware_requireRole ''legacy'' None = Status 401
   \<and> AuthMiddleware_requireAnyPermission (rbacService ex_db) [ex_check] None = Status 401
   \<and> RBACMiddleware_requireRole ''legacy'' (Some (ex_claims [''editor''] [''content:read'']))
        = Status 403
   \<and> RBACMiddleware_requireAnyRole [''legacy'', ''guest''] (Some (ex_claims [''editor''] [''content:read'']))
        = Status 403
   \<and> RBACMiddleware_requireAnyPermission [ex_check] (Some (ex_claims [''editor''] [''content:read'']))
        = Status 403
   \<and> RBACMiddleware_requireAdminOrPermission ex_check (Some (ex_claims [''editor''] [''content:read'']))
        = Status 403
   \<and> AuthMiddleware_requireRole (rbacService ex_db) ''legacy'' (Some (ex_claims [''editor''] [''content:read'']))
        = Status 403
   \<and> AuthMiddleware_requirePermission (rbacService ex_db) ex_check (Some (ex_claims [''editor''] [''content:read'']))
        = Status 403
   \<and> AuthMiddleware_requireAnyRole (rbacService ex_db) [''legacy'', ''guest'']
        (Some (ex_claims [''editor''] [''content:read''])) = Status 403
   \<and> AuthMiddleware_requireAnyPermission (rbacService ex_db) [ex_check]
        (Some (ex_claims [''editor''] [''content:read''])) = Status 403
   \<and> AuthMiddleware_requireRole ex_rejecting_service ''legacy'' None = Status 401
   \<and> AuthMiddleware_requireRole ex_rejecting_service ''legacy''
        (Some (ex_claims [''editor''] [''content:read''])) = Status 500
   \<and> AuthMiddleware_requireAnyRole ex_rejecting_service [''legacy'', ''guest'']
        (Some (ex_claims [''editor''] [''content:read''])) = Status 500"
proof -
  let ?u = "ex_claims [''editor''] [''content:read'']"
  note t = gates_classify_failures[where roleName = "''legacy''" and check = ex_check
      and roleNames = "[''legacy'', ''guest'']" and checks = "[ex_check]"
      and svc = "rbacService ex_db" and u = ?u and db = ex_db]
  note none = t[THEN conjunct1]
  note tok = t[THEN conjunct2, THEN conjunct1]
  note live = t[THEN conjunct2, THEN conjunct2, THEN conjunct1]
  have c1: "''legacy'' \<notin> set (jwt_roles ?u)" by code_simp
  have c2: "\<not> (pc_resource ex_check @ '':'' @ pc_action ex_check \<in> set (jwt_permissions ?u) \<or>
               pc_resource ex_check @ ''.'' @ pc_action ex_check \<in> set (jwt_permissions ?u))"
    by code_simp
  have c3: "\<not> (\<exists>roleName\<in>set [''legacy'', ''guest'']. roleName \<in> set (jwt_roles ?u))"
    by code_simp
  have c4: "\<not> (\<exists>check\<in>set [ex_check].
               pc_resource check @ '':'' @ pc_action check \<in> set (jwt_permissions ?u) \<or>
               pc_resource check @ ''.'' @ pc_action check \<in> set (jwt_permissions ?u))"
    by code_simp
  have c5: "\<not> (''admin'' \<in> set (jwt_roles ?u) \<or>
               pc_resource ex_check @ '':'' @ pc_action ex_check \<in> set (jwt_permissions ?u) \<or>
               pc_resource ex_check @ ''.'' @ pc_action ex_check \<in> set (jwt_permissions ?u))"
    by code_simp
  have d1: "\<not> RBACService_hasRole ex_db (jwt_userId ?u) ''legacy''" by code_simp
  have d2: "\<not> RBACService_hasPermission ex_db (jwt_userId ?u) ex_check" by code_simp
  have d3: "\<not> (\<exists>roleName\<in>set [''legacy'', ''guest''].
               RBACService_hasRole ex_db (jwt_userId ?u) roleName)" by code_simp
  have d4: "\<not> (\<exists>check\<in>set [ex_check]. RBACService_hasPermission ex_db (jwt_userId ?u) check)"
    by code_simp
  have r1: "RBACMiddleware_requireRole ''legacy'' None = Status 401"
    using none by (elim conjE)
  have r2: "AuthMiddleware_requireAnyPermission (rbacService ex_db) [ex_check] None = Status 401"
    using none by (elim conjE)
  have r3: "RBACMiddleware_requireRole ''legacy'' (Some ?u) = Status 403"
    using tok[THEN conjunct1] c1 by (simp only: if_False)
  have r4: "RBACMiddleware_requireAnyRole [''legacy'', ''guest''] (Some ?u) = Status 403"
    using tok[THEN conjunct2, THEN conjunct2, THEN conjunct1] c3 by (simp only: if_False)
  have r5: "RBACMiddleware_requireAnyPermission [ex_check] (Some ?u) = Status 403"
    using tok[THEN conjunct2, THEN conjunct2, THEN conjunct2, THEN conjunct1] c4
    by (simp only: if_False)
  have r6: "RBACMiddleware_requireAdminOrPermission ex_check (Some ?u) = Status 403"
    using tok[THEN conjunct2, THEN conjunct2, THEN conjunct2, THEN conjunct2] c5
    by (simp only: if_False)
  have r7: "AuthMiddleware_requireRole (rbacService ex_db) ''legacy'' (Some ?u) = Status 403"
    using live[THEN conjunct1] d1 by (simp only: if_False)
  have r8: "AuthMiddleware_requirePermission (rbacService ex_db) ex_check (Some ?u) = Status 403"
    using live[THEN conjunct2, THEN conjunct1] d2 by (simp only: if_False)
  have r9: "AuthMiddleware_requireAnyRole (rbacService ex_db) [''legacy'', ''guest''] (Some ?u)
              = Status 403"
    using live[THEN conjunct2, THEN conjunct2, THEN conjunct1] d3 by (simp only: if_False)
  note forb = t[THEN conjunct2, THEN conjunct2, THEN conjunct2, THEN conjunct2, THEN conjunct1]
  have f4: "\<forall>c\<in>set [ex_check].
              svc_hasPermission (rbacService ex_db) (jwt_userId ?u) c = Inr False"
    using d2 by (simp add: rbacService_def)
  have r10: "AuthMiddleware_requireAnyPermission (rbacService ex_db) [ex_check] (Some ?u) = Status 403"
    using forb[THEN conjunct2, THEN conjunct2, THEN conjunct2, rule_format] f4 by blast
  note t' = gates_classify_failures[where roleName = "''legacy''" and check = ex_check
      and roleNames = "[''legacy'', ''guest'']" and checks = "[ex_check]"
      and svc = ex_rejecting_service and u = ?u and db = ex_db]
  note caught = t'[THEN conjunct2, THEN conjunct2, THEN conjunct2, THEN conjunct2, THEN conjunct2]
  have g1: "\<exists>e. svc_hasRole ex_rejecting_service (jwt_userId ?u) ''legacy'' = Inl e"
    by (simp add: ex_rejecting_service_def)
  have g3: "\<exists>r\<in>set [''legacy'', ''guest''].
              \<exists>e. svc_hasRole ex_rejecting_service (jwt_userId ?u) r = Inl e"
    by (auto simp: ex_rejecting_service_def)
  have r11: "AuthMiddleware_requireRole ex_rejecting_service ''legacy'' None = Status 401"
    using t'[THEN conjunct1] by (elim conjE)
  have r12: "AuthMiddleware_requireRole ex_rejecting_service ''legacy'' (Some ?u) = Status 500"
    using caught[THEN conjunct1, rule_format, OF g1] .
  have r13: "AuthMiddleware_requireAnyRole ex_rejecting_service [''legacy'', ''guest''] (Some ?u)
               = Status 500"
    using caught[THEN conjunct2, THEN conjunct2, THEN conjunct1, rule_format, OF g3] .
  from r1 r2 r3 r4 r5 r6 r7 r8 r9 r10 r11 r12 r13 show ?thesis by (intro conjI)
qed

text \<open>
  C9. Two identities with the same \<open>userId\<close> get the same decision from
  \<open>AuthMiddleware.requireRole\<close> and \<open>AuthMiddleware.requirePermission\<close>, over the same
  database and over any service, whatever roles and permissions their tokens carry.
\<close>

theorem live_gate_ignores_snapshot:
  "jwt_userId u1 = jwt_userId u2 \<Longrightarrow>
     AuthMiddleware_requireRole (rbacService db) roleName (Some u1)
       = AuthMiddleware_requireRole (rbacService db) roleName (Some u2)
     \<and> AuthMiddleware_requirePermission (rbacService db) check (Some u1)
       = AuthMiddleware_requirePermission (rbacService db) check (Some u2)
     \<and> AuthMiddleware_requireRole svc roleName (Some u1)
       = AuthMiddleware_requireRole svc roleName (Some u2)
     \<and> AuthMiddleware_requirePermission svc check (Some u1)
       = AuthMiddleware_requirePermission svc check (Some u2)"
  by (simp add: AuthMiddleware_requireRole_def AuthMiddleware_requirePermission_def)

theorem live_gate_ignores_snapshot_witness:
  "jwt_userId (ex_claims [] []) = jwt_userId (ex_claims [''guest''] [''sensitive:read''])
   \<and> AuthMiddleware_requireRole (rbacService ex_db) ''admin'' (Some (ex_claims [] [])) = Next
   \<and> AuthMiddleware_requireRole (rbacService ex_db) ''admin''
        (Some (ex_claims [''guest''] [''sensitive:read''])) = Next
   \<and> AuthMiddleware_requirePermission (rbacService ex_db) ex_check (Some (ex_claims [] []))
        = Status 403
   \<and> AuthMiddleware_requirePermission (rbacService ex_db) ex_check
        (Some (ex_claims [''guest''] [''sensitive:read''])) = Status 403"
proof -
  have h: "jwt_userId (ex_claims [] []) = jwt_userId (ex_claims [''guest''] [''sensitive:read''])"
    by (simp add: ex_claims_def)
  note t = live_gate_ignores_snapshot[OF h, where db = ex_db and roleName = "''admin''"
      and check = ex_check and svc = "rbacService ex_db"]
  have a: "AuthMiddleware_requireRole (rbacService ex_db) ''admin'' (Some (ex_claims [] [])) = Next"
    by code_simp
  have b: "AuthMiddleware_requirePermission (rbacService ex_db) ex_check (Some (ex_claims [] []))
        = Status 403"
    by code_simp
  have a': "AuthMiddleware_requireRole (rbacService ex_db) ''admin''
        (Some (ex_claims [''guest''] [''sensitive:read''])) = Next"
    using t[THEN conjunct1] a by (rule subst)
  have b': "AuthMiddleware_requirePermission (rbacService ex_db) ex_check
        (Some (ex_claims [''guest''] [''sensitive:read''])) = Status 403"
    using t[THEN conjunct2, THEN conjunct1] b by (rule subst)
  from h a a' b b' show ?thesis by (intro conjI)
qed

text \<open>
  C10. On the empty list, \<open>requireAnyRole\<close> and \<open>requireAnyPermission\<close> of both
  middlewares answer 403 for every identity, and pass for no request at all.
\<close>

theorem requireAny_empty_denies:
  "RBACMiddleware_requireAnyRole [] (Some u) = Status 403
   \<and> RBACMiddleware_requireAnyPermission [] (Some u) = Status 403
   \<and> AuthMiddleware_requireAnyRole svc [] (Some u) = Status 403
   \<and> AuthMiddleware_requireAnyPermission svc [] (Some u) = Status 403
   \<and> (\<forall>user. RBACMiddleware_requireAnyRole [] user \<noteq> Next)
   \<and> (\<forall>user. RBACMiddleware_requireAnyPermission [] user \<noteq> Next)
   \<and> (\<forall>user. AuthMiddleware_requireAnyRole svc [] user \<noteq> Next)
   \<and> (\<forall>user. AuthMiddleware_requireAnyPermission svc [] user \<noteq> Next)"
  by (simp add: RBACMiddleware_requireAnyRole_def RBACMiddleware_requireAnyPermission_def
      AuthMiddleware_requireAnyRole_def AuthMiddleware_requireAnyPermission_def
      split: option.splits)

theorem requireAny_empty_denies_witness:
  "RBACMiddleware_requireAnyRole [] (Some (ex_claims [''admin''] [''sensitive:read''])) = Status 403
   \<and> RBACMiddleware_requireAnyPermission [] (Some (ex_claims [''admin''] [''sensitive:read'']))
        = Status 403
   \<and> AuthMiddleware_requireAnyRole (rbacService ex_db) []
        (Some (ex_claims [''admin''] [''sensitive:read''])) = Status 403
   \<and> AuthMiddleware_requireAnyPermission (rbacService ex_db) []
        (Some (ex_claims [''admin''] [''sensitive:read''])) = Status 403"
  using requireAny_empty_denies[of "ex_claims [''admin''] [''sensitive:read'']" "rbacService ex_db"]
  by (elim conjE) (intro conjI)


end
